theory Spec2Isabelle
  imports Complex_Main "HOL-Library.Multiset" "HOL-Library.AList"
begin

section \<open>The content client of the edu repository (class GPTService)\<close>

text \<open>
  The service posts a request to a worker and turns the JSON reply into quiz questions
  and explore content. Its replies are untyped at run time (the TypeScript annotations
  are erased), so the embedding works on JavaScript values as \<open>JSON.parse\<close> builds
  them, and every \<open>throw\<close>, every \<open>TypeError\<close> of a property read on \<open>null\<close> and
  every early \<open>return\<close> is a branch of a function of the model.

  Effects: \<open>alert\<close> and the \<open>onChunk\<close> callback are events of a trace the asynchronous
  methods return beside their result. \<open>console.error\<close> writes to the developer console
  only, no value, error, alert or callback depends on it, and it is the one effect left
  out; the error it would print is the error of the \<open>_try\<close> function that models the
  method's \<open>try\<close> block. \<open>Math.random\<close> is a parameter.
\<close>

subsection \<open>JavaScript values\<close>

text \<open>
  A number is the rational a finite double denotes, or an infinity (\<open>JSON.parse\<close> of
  \<open>1e999\<close>). No value of this program is NaN: no JSON text denotes it and
  \<open>findIndex\<close>, \<open>Math.floor(index / 5) + 1\<close> return integers. Zero and minus zero are
  one value; \<open><\<close>, \<open>>\<close>, \<open>===\<close> and truthiness do not tell them apart.
\<close>

datatype jsnum = NegInf | Fin rat | PosInf

text \<open>
  A string is a list of code units (here: those below 256), an object is the list of
  its own properties in insertion order, read with \<open>map_of\<close>.
\<close>

datatype jsval =
    JUndefined
  | JNull
  | JBool bool
  | JNum jsnum
  | JStr string
  | JArr "jsval list"
  | JObj "(string \<times> jsval) list"

text \<open>The values thrown: \<open>new Error(message)\<close> of the source, and the engine's own errors.\<close>

datatype exn = Error string | TypeError | SyntaxError

text \<open>
  The built-in functions the model takes as parameters: \<open>JSON.parse\<close> (\<open>None\<close> when it
  throws a \<open>SyntaxError\<close>), the conversion of a value that is not a string to a string
  (\<open>None\<close> when it throws a \<open>TypeError\<close>), the text of \<open>Math.ceil(v)\<close> in a template
  (likewise), and the \<open>message\<close> of an error the engine raised.
\<close>

record engine =
  json_parse :: "string \<Rightarrow> jsval option"
  to_text :: "jsval \<Rightarrow> string option"
  ceil_text :: "jsval \<Rightarrow> string option"
  native_message :: "exn \<Rightarrow> string"

text \<open>\<open>x < y\<close> on numbers.\<close>

fun num_less :: "jsnum \<Rightarrow> jsnum \<Rightarrow> bool" where
  "num_less (Fin a) (Fin b) = (a < b)"
| "num_less NegInf b = (b \<noteq> NegInf)"
| "num_less a PosInf = (a \<noteq> PosInf)"
| "num_less a b = False"

text \<open>\<open>!!v\<close>: every value is truthy but \<open>undefined\<close>, \<open>null\<close>, \<open>false\<close>, \<open>0\<close> and \<open>''\<close>.\<close>

fun truthy :: "jsval \<Rightarrow> bool" where
  "truthy JUndefined = False"
| "truthy JNull = False"
| "truthy (JBool b) = b"
| "truthy (JNum n) = (n \<noteq> Fin 0)"
| "truthy (JStr s) = (s \<noteq> [])"
| "truthy (JArr xs) = True"
| "truthy (JObj kvs) = True"

text \<open>\<open>a || b\<close>.\<close>

definition or_else :: "jsval \<Rightarrow> jsval \<Rightarrow> jsval" where
  "or_else a b = (if truthy a then a else b)"

definition nullish :: "jsval \<Rightarrow> bool" where
  "nullish v = (v = JUndefined \<or> v = JNull)"

text \<open>
  \<open>v.p\<close> for a value that is not \<open>null\<close> or \<open>undefined\<close>, and a property name \<open>p\<close>
  that no prototype defines (the names this program reads: \<open>text\<close>, \<open>options\<close>,
  \<open>correctAnswer\<close>, \<open>explanation\<close>, \<open>correct\<close>, \<open>key_point\<close>, \<open>subtopic\<close>, \<open>questions\<close>,
  \<open>domain\<close>, \<open>content\<close>, \<open>paragraph1\<close> to \<open>paragraph3\<close>, \<open>relatedTopics\<close>,
  \<open>relatedQuestions\<close>, \<open>retryAfter\<close>, \<open>candidates\<close>, \<open>parts\<close>, \<open>topics\<close>, \<open>name\<close>, \<open>type\<close>,
  \<open>detail\<close>): an own property of an object, \<open>undefined\<close> otherwise.
\<close>

fun read_prop :: "jsval \<Rightarrow> string \<Rightarrow> jsval" where
  "read_prop (JObj kvs) p = (case map_of kvs p of None \<Rightarrow> JUndefined | Some v \<Rightarrow> v)"
| "read_prop v p = JUndefined"

text \<open>\<open>v.p\<close>: a \<open>TypeError\<close> on \<open>null\<close> and \<open>undefined\<close>.\<close>

definition get_prop :: "jsval \<Rightarrow> string \<Rightarrow> exn + jsval" where
  "get_prop v p = (if nullish v then Inl TypeError else Inr (read_prop v p))"

text \<open>\<open>v?.p\<close>.\<close>

definition opt_prop :: "jsval \<Rightarrow> string \<Rightarrow> jsval" where
  "opt_prop v p = (if nullish v then JUndefined else read_prop v p)"

text \<open>Decimal digits of a natural number, as a template literal prints an index or a count.\<close>

fun show_nat :: "nat \<Rightarrow> string" where
  "show_nat n =
     (if n < 10 then [char_of (48 + n)]
      else show_nat (n div 10) @ [char_of (48 + n mod 10)])"

declare show_nat.simps [simp del]

text \<open>
  \<open>v[0]\<close> for a value that is not \<open>null\<close> or \<open>undefined\<close>: the first element of an
  array, the first code unit of a string, the property \<open>"0"\<close> of an object.
\<close>

fun first_elem :: "jsval \<Rightarrow> jsval" where
  "first_elem (JArr xs) = (case xs of [] \<Rightarrow> JUndefined | x # rest \<Rightarrow> x)"
| "first_elem (JStr s) = (case s of [] \<Rightarrow> JUndefined | c # rest \<Rightarrow> JStr [c])"
| "first_elem (JObj kvs) = (case map_of kvs ''0'' of None \<Rightarrow> JUndefined | Some v \<Rightarrow> v)"
| "first_elem v = JUndefined"

subsection \<open>Strings: trim and split\<close>

text \<open>
  The white space and line terminators \<open>String.prototype.trim\<close> removes, among the
  code units below 256: tab, line feed, vertical tab, form feed, carriage return, space
  and no-break space.
\<close>

definition is_space :: "char \<Rightarrow> bool" where
  "is_space c = (c \<in> set [CHR 0x09, CHR 0x0A, CHR 0x0B, CHR 0x0C, CHR 0x0D, CHR 0x20, CHR 0xA0])"

definition trim :: "string \<Rightarrow> string" where
  "trim s = rev (dropWhile is_space (rev (dropWhile is_space s)))"

text \<open>
  \<open>s.split(sep)\<close> for a separator that is not empty: \<open>acc\<close> holds, reversed, the part
  read since the last separator.
\<close>

function split_from :: "string \<Rightarrow> string \<Rightarrow> string \<Rightarrow> string list" where
  "split_from sep acc [] = [rev acc]"
| "split_from sep acc (c # cs) =
     (if sep \<noteq> [] \<and> take (length sep) (c # cs) = sep
      then rev acc # split_from sep [] (drop (length sep) (c # cs))
      else split_from sep (c # acc) cs)"
  by pat_completeness auto
termination
  by (relation "measure (\<lambda>(sep, acc, s). length s)") auto

definition split :: "string \<Rightarrow> string \<Rightarrow> string list" where
  "split s sep = split_from sep [] s"

subsection \<open>Exceptions and events\<close>

text \<open>Synchronous code: \<open>Inl e\<close> is \<open>throw e\<close>, \<open>Inr x\<close> is a normal completion with \<open>x\<close>.\<close>

definition bindE :: "exn + 'a \<Rightarrow> ('a \<Rightarrow> exn + 'b) \<Rightarrow> exn + 'b" where
  "bindE m f = (case m of Inl e \<Rightarrow> Inl e | Inr x \<Rightarrow> f x)"

text \<open>\<open>try { m } catch (error) { h error }\<close>.\<close>

definition catchE :: "exn + 'a \<Rightarrow> (exn \<Rightarrow> exn + 'a) \<Rightarrow> exn + 'a" where
  "catchE m h = (case m of Inl e \<Rightarrow> h e | Inr x \<Rightarrow> Inr x)"

text \<open>\<open>xs.map((x, index) => f index x)\<close>, from index \<open>i\<close> on; the first throw ends it.\<close>

fun map_indexed :: "(nat \<Rightarrow> 'a \<Rightarrow> exn + 'b) \<Rightarrow> nat \<Rightarrow> 'a list \<Rightarrow> exn + 'b list" where
  "map_indexed f i [] = Inr []"
| "map_indexed f i (x # xs) =
     bindE (f i x) (\<lambda>y. bindE (map_indexed f (Suc i) xs) (\<lambda>ys. Inr (y # ys)))"

text \<open>\<open>xs.filter(x => p x)\<close>.\<close>

fun filter_js :: "('a \<Rightarrow> exn + bool) \<Rightarrow> 'a list \<Rightarrow> exn + 'a list" where
  "filter_js p [] = Inr []"
| "filter_js p (x # xs) =
     bindE (p x) (\<lambda>keep. bindE (filter_js p xs) (\<lambda>ys. Inr (if keep then x # ys else ys)))"

text \<open>\<open>xs.some(x => p x)\<close>: stops at the first element the callback accepts.\<close>

fun some_js :: "('a \<Rightarrow> exn + bool) \<Rightarrow> 'a list \<Rightarrow> exn + bool" where
  "some_js p [] = Inr False"
| "some_js p (x # xs) = bindE (p x) (\<lambda>hit. if hit then Inr True else some_js p xs)"

text \<open>\<open>xs.findIndex(x => p x)\<close>: the first index the callback accepts, or \<open>-1\<close>.\<close>

fun findIndex :: "('a \<Rightarrow> bool) \<Rightarrow> 'a list \<Rightarrow> int" where
  "findIndex p [] = - 1"
| "findIndex p (x # xs) =
     (if p x then 0 else (let r = findIndex p xs in if r < 0 then - 1 else r + 1))"

subsection \<open>Format validation\<close>

text \<open>\<open>v?.trim()\<close>: \<open>undefined\<close> on \<open>null\<close> and \<open>undefined\<close>, the trimmed string on a string,
  and a \<open>TypeError\<close> on every other value (its \<open>trim\<close> is not a function).\<close>

fun opt_trim :: "jsval \<Rightarrow> exn + jsval" where
  "opt_trim JUndefined = Inr JUndefined"
| "opt_trim JNull = Inr JUndefined"
| "opt_trim (JStr s) = Inr (JStr (trim s))"
| "opt_trim v = Inl TypeError"

text \<open>\<open>!v?.trim()\<close>.\<close>

definition not_trim :: "jsval \<Rightarrow> exn + bool" where
  "not_trim v = bindE (opt_trim v) (\<lambda>t. Inr (\<not> truthy t))"

text \<open>\<open>v.length < n\<close>; where the source reads it, \<open>v\<close> is a string (its \<open>trim()\<close> was
  truthy). On a value with no \<open>length\<close> the comparison with \<open>undefined\<close> is false.\<close>

fun length_below :: "jsval \<Rightarrow> nat \<Rightarrow> bool" where
  "length_below (JStr s) n = (length s < n)"
| "length_below (JArr xs) n = (length xs < n)"
| "length_below v n = False"

text \<open>
  The \<open>try\<close> block of \<open>validateQuestionFormat\<close>, line by line. \<open>new Set(options).size\<close>
  is read after \<open>some\<close> found a non-empty string in every option, and a \<open>Set\<close> of strings
  holds each content once: the size is \<open>length (remdups opts)\<close>.
\<close>

definition validateQuestionFormat_try :: "jsval \<Rightarrow> exn + bool" where
  "validateQuestionFormat_try question =
     bindE (get_prop question ''text'') (\<lambda>text.
     bindE (not_trim text) (\<lambda>blank_text.
     if blank_text then Inr False else
     bindE (get_prop question ''options'') (\<lambda>options.
     case options of
       JArr opts \<Rightarrow>
         if length opts \<noteq> 4 then Inr False else
         bindE (some_js not_trim opts) (\<lambda>blank_option.
         if blank_option then Inr False else
         bindE (get_prop question ''correctAnswer'') (\<lambda>correctAnswer.
         if (case correctAnswer of
               JNum n \<Rightarrow> num_less n (Fin 0) \<or> num_less (Fin 3) n
             | _ \<Rightarrow> True)
         then Inr False else
         bindE (get_prop question ''explanation'') (\<lambda>explanation.
         bindE (not_trim (opt_prop explanation ''correct'')) (\<lambda>blank_correct.
         if blank_correct then Inr False else
         bindE (not_trim (opt_prop explanation ''key_point'')) (\<lambda>blank_key_point.
         if blank_key_point then Inr False else
         if length_below text 10 then Inr False else
         if length opts \<noteq> length (remdups opts) then Inr False else
         bindE (get_prop explanation ''correct'') (\<lambda>correct.
         bindE (get_prop explanation ''key_point'') (\<lambda>key_point.
         if length_below correct 5 \<or> length_below key_point 5 then Inr False
         else Inr True)))))))
     | _ \<Rightarrow> Inr False)))"

text \<open>The method: its \<open>catch\<close> turns every exception into \<open>false\<close>.\<close>

definition validateQuestionFormat :: "jsval \<Rightarrow> exn + bool" where
  "validateQuestionFormat question =
     catchE (validateQuestionFormat_try question) (\<lambda>error. Inr False)"

subsection \<open>Option shuffle\<close>

text \<open>\<open>[a[i], a[j]] = [a[j], a[i]]\<close>: both reads come before both writes.\<close>

definition swap :: "nat \<Rightarrow> nat \<Rightarrow> 'a list \<Rightarrow> 'a list" where
  "swap i j xs = (xs[i := xs ! j])[j := xs ! i]"

text \<open>
  \<open>for (let i = ...; i > 0; i--)\<close> from index \<open>i\<close> down. \<open>random k\<close> is what the
  \<open>k\<close>-th call of \<open>Math.random()\<close> returns, a number at least 0 and below 1, so that
  \<open>j\<close> is at most \<open>i\<close>.
\<close>

fun shuffle_loop :: "(nat \<Rightarrow> rat) \<Rightarrow> nat \<Rightarrow> nat \<Rightarrow> 'a list \<Rightarrow> 'a list" where
  "shuffle_loop random calls 0 xs = xs"
| "shuffle_loop random calls (Suc n) xs =
     (let i = Suc n;
          j = nat \<lfloor>random calls * of_nat (i + 1)\<rfloor>
      in shuffle_loop random (Suc calls) n (swap i j xs))"

text \<open>The own properties \<open>{...v}\<close> copies.\<close>

fun own_props :: "jsval \<Rightarrow> (string \<times> jsval) list" where
  "own_props (JObj kvs) = kvs"
| "own_props (JArr xs) = map (\<lambda>(i, x). (show_nat i, x)) (enumerate 0 xs)"
| "own_props (JStr s) = map (\<lambda>(i, c). (show_nat i, JStr [c])) (enumerate 0 s)"
| "own_props v = []"

text \<open>
  \<open>shuffleOptionsAndAnswer\<close>. An element of \<open>optionsWithIndex\<close> is the pair of its
  \<open>text\<close> and its \<open>isCorrect\<close>. \<open>question.options.map\<close> throws a \<open>TypeError\<close> unless
  \<open>options\<close> is an array; the loop starts at \<open>length - 1\<close> and does not run on an empty
  array.
\<close>

definition shuffleOptionsAndAnswer :: "(nat \<Rightarrow> rat) \<Rightarrow> jsval \<Rightarrow> exn + jsval" where
  "shuffleOptionsAndAnswer random question =
     bindE (get_prop question ''options'') (\<lambda>options.
     case options of
       JArr opts \<Rightarrow>
         (let optionsWithIndex =
                map (\<lambda>(idx, opt). (opt, JNum (Fin (of_nat idx)) = read_prop question ''correctAnswer''))
                  (enumerate 0 opts);
              shuffled = shuffle_loop random 0 (length optionsWithIndex - 1) optionsWithIndex;
              newCorrectAnswer = findIndex snd shuffled
          in Inr (JObj (AList.update ''correctAnswer'' (JNum (Fin (of_int newCorrectAnswer)))
                   (AList.update ''options'' (JArr (map fst shuffled)) (own_props question)))))
     | _ \<Rightarrow> Inl TypeError)"

text \<open>The shuffle applied once for each random source of a list, each to the result of the last.\<close>

fun shuffle_repeatedly :: "(nat \<Rightarrow> rat) list \<Rightarrow> jsval \<Rightarrow> exn + jsval" where
  "shuffle_repeatedly [] question = Inr question"
| "shuffle_repeatedly (random # rest) question =
     bindE (shuffleOptionsAndAnswer random question) (shuffle_repeatedly rest)"

subsection \<open>The network, events and asynchronous results\<close>

text \<open>
  What \<open>fetch\<close> gives: a rejection, or a response with its status and its body;
  \<open>body\<close> is the value \<open>response.json()\<close> resolves to, \<open>None\<close> for a body that is
  not JSON. \<open>response.ok\<close> is true for the statuses 200 to 299.
\<close>

record response =
  status :: nat
  body :: "jsval option"

datatype fetch_result = Rejected | Resolved response

definition ok :: "response \<Rightarrow> bool" where
  "ok r = (200 \<le> status r \<and> status r \<le> 299)"

text \<open>\<open>await response.json()\<close>; a body can be read once, \<open>used\<close> says it has been.\<close>

definition response_json :: "response \<Rightarrow> bool \<Rightarrow> exn + jsval" where
  "response_json r used =
     (if used then Inl TypeError
      else case body r of None \<Rightarrow> Inl SyntaxError | Some v \<Rightarrow> Inr v)"

text \<open>The worker's answer to the one POST a method sends, by the \<open>endpoint\<close> of its envelope.\<close>

type_synonym network = "string \<Rightarrow> fetch_result"

text \<open>What \<open>onChunk\<close> receives; \<open>None\<close> is \<open>undefined\<close>.\<close>

record chunk =
  chunk_text :: "string option"
  chunk_topics :: "jsval list option"
  chunk_questions :: "jsval list option"

datatype event = Alert string | OnChunk chunk

text \<open>An asynchronous call: the events it caused, in order, and how its promise settled.\<close>

type_synonym 'a outcome = "event list \<times> (exn + 'a)"

definition pureO :: "exn + 'a \<Rightarrow> 'a outcome" where
  "pureO r = ([], r)"

definition emit :: "event \<Rightarrow> unit outcome" where
  "emit ev = ([ev], Inr ())"

definition bindO :: "'a outcome \<Rightarrow> ('a \<Rightarrow> 'b outcome) \<Rightarrow> 'b outcome" where
  "bindO m f =
     (case m of
        (evs, Inl e) \<Rightarrow> (evs, Inl e)
      | (evs, Inr x) \<Rightarrow> (case f x of (evs', r) \<Rightarrow> (evs @ evs', r)))"

definition catchO :: "'a outcome \<Rightarrow> (exn \<Rightarrow> 'a outcome) \<Rightarrow> 'a outcome" where
  "catchO m h =
     (case m of
        (evs, Inl e) \<Rightarrow> (case h e of (evs', r) \<Rightarrow> (evs @ evs', r))
      | (evs, Inr x) \<Rightarrow> (evs, Inr x))"

text \<open>The \<open>message\<close> of a caught error; every value thrown here is an \<open>Error\<close> instance.\<close>

definition message :: "engine \<Rightarrow> exn \<Rightarrow> string" where
  "message eng e = (case e of Error m \<Rightarrow> m | _ \<Rightarrow> native_message eng e)"

text \<open>The text of the rate-limit alert, from the body of the 429 response.\<close>

definition alert_text :: "engine \<Rightarrow> jsval \<Rightarrow> exn + string" where
  "alert_text eng data =
     bindE (get_prop data ''retryAfter'') (\<lambda>retryAfter.
     case ceil_text eng retryAfter of
       None \<Rightarrow> Inl TypeError
     | Some seconds \<Rightarrow>
         Inr (''Too many requests. Please try again in '' @ seconds @ '' seconds''))"

subsection \<open>The request envelope\<close>

text \<open>The \<open>try\<close> block of \<open>makeApiRequest\<close>: the check of \<open>response.ok\<close> comes first.\<close>

definition makeApiRequest_try :: "engine \<Rightarrow> network \<Rightarrow> string \<Rightarrow> jsval outcome" where
  "makeApiRequest_try eng net endpoint =
     (case net endpoint of
        Rejected \<Rightarrow> pureO (Inl TypeError)
      | Resolved response \<Rightarrow>
          if \<not> ok response
          then pureO (Inl (Error (''API request failed: '' @ show_nat (status response))))
          else
            bindO (if status response = 429
                   then bindO (pureO (response_json response False)) (\<lambda>data.
                        bindO (pureO (alert_text eng data)) (\<lambda>text. emit (Alert text)))
                   else pureO (Inr ())) (\<lambda>u.
            pureO (response_json response (status response = 429))))"

definition makeApiRequest :: "engine \<Rightarrow> network \<Rightarrow> string \<Rightarrow> jsval outcome" where
  "makeApiRequest eng net endpoint =
     catchO (makeApiRequest_try eng net endpoint)
       (\<lambda>error. pureO (Inl (Error ''Failed to make API request'')))"

text \<open>\<open>typeof content === 'string' ? JSON.parse(content) : content\<close>, in three methods.\<close>

definition parse_if_string :: "engine \<Rightarrow> jsval \<Rightarrow> exn + jsval" where
  "parse_if_string eng content =
     (case content of
        JStr s \<Rightarrow> (case json_parse eng s of None \<Rightarrow> Inl SyntaxError | Some v \<Rightarrow> Inr v)
      | _ \<Rightarrow> Inr content)"

subsection \<open>Explore content\<close>

record exploreResponse =
  content :: string
  relatedTopics :: "jsval list"
  relatedQuestions :: "jsval list"

text \<open>The text \<open>join\<close> gives an element: empty for \<open>null\<close> and \<open>undefined\<close>.\<close>

definition join_text :: "engine \<Rightarrow> jsval \<Rightarrow> exn + string" where
  "join_text eng v =
     (case v of
        JStr s \<Rightarrow> Inr s
      | JUndefined \<Rightarrow> Inr []
      | JNull \<Rightarrow> Inr []
      | _ \<Rightarrow> (case to_text eng v of None \<Rightarrow> Inl TypeError | Some s \<Rightarrow> Inr s))"

fun join :: "engine \<Rightarrow> string \<Rightarrow> jsval list \<Rightarrow> exn + string" where
  "join eng sep [] = Inr []"
| "join eng sep [x] = join_text eng x"
| "join eng sep (x # y # ys) =
     bindE (join_text eng x) (\<lambda>s.
     bindE (join eng sep (y # ys)) (\<lambda>rest. Inr (s @ sep @ rest)))"

text \<open>\<open>Array.isArray(v) ? v.slice(0, 5) : []\<close>.\<close>

definition first_five :: "jsval \<Rightarrow> jsval list" where
  "first_five v = (case v of JArr xs \<Rightarrow> take 5 xs | _ \<Rightarrow> [])"

text \<open>
  The \<open>try\<close> block of \<open>getExploreContent\<close>. Reading \<open>parsedContent.domain\<close> throws on
  \<open>null\<close>; after it \<open>parsedContent\<close> is not \<open>null\<close>, and \<open>||\<close> reads a paragraph only
  where \<open>parsedContent.content\<close> is truthy, so the later reads cannot throw.
\<close>

definition getExploreContent_try :: "engine \<Rightarrow> network \<Rightarrow> exploreResponse outcome" where
  "getExploreContent_try eng net =
     bindO (makeApiRequest eng net ''explore'') (\<lambda>content.
     if \<not> truthy content then pureO (Inl (Error ''Empty response from API'')) else
     bindO (pureO (catchE (parse_if_string eng content)
                     (\<lambda>error. Inl (Error ''Invalid JSON response from API'')))) (\<lambda>parsedContent.
     bindO (pureO (get_prop parsedContent ''domain'')) (\<lambda>domain.
     let paragraphs = read_prop parsedContent ''content'' in
     if \<not> truthy domain \<or> \<not> truthy paragraphs \<or>
        \<not> truthy (read_prop paragraphs ''paragraph1'') \<or>
        \<not> truthy (read_prop paragraphs ''paragraph2'') \<or>
        \<not> truthy (read_prop paragraphs ''paragraph3'')
     then pureO (Inl (Error ''Invalid response structure'')) else
     bindO (pureO (join eng ''\<newline>\<newline>''
                     [read_prop paragraphs ''paragraph1'',
                      read_prop paragraphs ''paragraph2'',
                      read_prop paragraphs ''paragraph3''])) (\<lambda>formattedContent.
     pureO (Inr \<lparr>content = formattedContent,
                 relatedTopics = first_five (read_prop parsedContent ''relatedTopics''),
                 relatedQuestions = first_five (read_prop parsedContent ''relatedQuestions'')\<rparr>)))))"

definition getExploreContent :: "engine \<Rightarrow> network \<Rightarrow> exploreResponse outcome" where
  "getExploreContent eng net =
     catchO (getExploreContent_try eng net)
       (\<lambda>error. pureO (Inl (Error ''Failed to generate explore content'')))"

subsection \<open>Practice question\<close>

text \<open>Of the user context only \<open>age\<close> is read; the rest travels to the worker.\<close>

record userContext =
  age :: jsnum

text \<open>\<open>v.toString()\<close> of a value that is not a string.\<close>

definition text_of :: "engine \<Rightarrow> jsval \<Rightarrow> exn + string" where
  "text_of eng v = (case to_text eng v of None \<Rightarrow> Inl TypeError | Some s \<Rightarrow> Inr s)"

text \<open>
  The object literal \<open>formattedQuestion\<close>. \<open>shuffled\<close> is the object the shuffle built
  and \<open>parsedContent\<close> the object it was built from, so their reads cannot throw.
\<close>

definition formatQuestion ::
  "engine \<Rightarrow> string \<Rightarrow> jsnum \<Rightarrow> userContext \<Rightarrow> jsval \<Rightarrow> jsval \<Rightarrow> exn + jsval" where
  "formatQuestion eng topic level ctx parsedContent shuffled =
     bindE (text_of eng (JNum (age ctx))) (\<lambda>ageGroup.
     Inr (JObj
       [(''text'', or_else (read_prop shuffled ''text'') (JStr [])),
        (''options'', read_prop shuffled ''options''),
        (''correctAnswer'', read_prop shuffled ''correctAnswer''),
        (''explanation'', JObj
           [(''correct'', or_else (opt_prop (read_prop shuffled ''explanation'') ''correct'')
                            (JStr ''Correct answer explanation'')),
            (''key_point'', or_else (opt_prop (read_prop shuffled ''explanation'') ''key_point'')
                              (JStr ''Key learning point''))]),
        (''difficulty'', JNum level),
        (''topic'', JStr topic),
        (''subtopic'', or_else (read_prop parsedContent ''subtopic'') (JStr topic)),
        (''questionType'', JStr ''conceptual''),
        (''ageGroup'', JStr ageGroup)]))"

definition getPlaygroundQuestion_try ::
  "engine \<Rightarrow> network \<Rightarrow> (nat \<Rightarrow> rat) \<Rightarrow> string \<Rightarrow> jsnum \<Rightarrow> userContext \<Rightarrow> jsval outcome" where
  "getPlaygroundQuestion_try eng net random topic level ctx =
     bindO (makeApiRequest eng net ''playground'') (\<lambda>content.
     if \<not> truthy content then pureO (Inl (Error ''Empty response received from API'')) else
     bindO (pureO (catchE (parse_if_string eng content)
                     (\<lambda>error. Inl (Error ''Invalid JSON response from API'')))) (\<lambda>parsedContent.
     bindO (pureO (shuffleOptionsAndAnswer random parsedContent)) (\<lambda>shuffled.
     bindO (pureO (formatQuestion eng topic level ctx parsedContent shuffled)) (\<lambda>formattedQuestion.
     bindO (pureO (validateQuestionFormat formattedQuestion)) (\<lambda>valid.
     if valid then pureO (Inr formattedQuestion)
     else pureO (Inl (Error ''Generated question failed validation'')))))))"

definition getPlaygroundQuestion ::
  "engine \<Rightarrow> network \<Rightarrow> (nat \<Rightarrow> rat) \<Rightarrow> string \<Rightarrow> jsnum \<Rightarrow> userContext \<Rightarrow> jsval outcome" where
  "getPlaygroundQuestion eng net random topic level ctx =
     catchO (getPlaygroundQuestion_try eng net random topic level ctx)
       (\<lambda>error. pureO (Inl (Error ''Failed to generate valid question'')))"

subsection \<open>Exam questions\<close>

datatype examType = JEE | NEET

definition examType_text :: "examType \<Rightarrow> string" where
  "examType_text t = (case t of JEE \<Rightarrow> ''JEE'' | NEET \<Rightarrow> ''NEET'')"

text \<open>
  The callback of \<open>parsed.questions.map\<close>: \<open>q.text\<close> is its first read of \<open>q\<close> and
  throws on a \<open>null\<close> item; the later reads cannot.
\<close>

definition processQuestion :: "string \<Rightarrow> examType \<Rightarrow> nat \<Rightarrow> jsval \<Rightarrow> exn + jsval" where
  "processQuestion topic examType index q =
     (let difficulty = index div 5 + 1 in
      bindE (get_prop q ''text'') (\<lambda>text.
      Inr (JObj
        [(''text'', or_else text (JStr [])),
         (''options'', case read_prop q ''options'' of JArr xs \<Rightarrow> JArr xs | _ \<Rightarrow> JArr []),
         (''correctAnswer'', case read_prop q ''correctAnswer'' of JNum n \<Rightarrow> JNum n | _ \<Rightarrow> JNum (Fin 0)),
         (''explanation'', or_else (read_prop q ''explanation'') (JStr [])),
         (''difficulty'', JNum (Fin (of_nat difficulty))),
         (''topic'', JStr topic),
         (''subtopic'', or_else (read_prop q ''subtopic'')
                          (JStr (topic @ '' Concept '' @ show_nat (index + 1)))),
         (''examType'', JStr (examType_text examType)),
         (''questionType'', JStr ''conceptual''),
         (''ageGroup'', JStr ''16-18'')])))"

text \<open>
  The \<open>try\<close> block of \<open>getTestQuestions\<close>. An array is truthy, so
  \<open>!parsed?.questions || !Array.isArray(parsed.questions)\<close> is false exactly where
  \<open>parsed?.questions\<close> is an array.
\<close>

definition getTestQuestions_try ::
  "engine \<Rightarrow> network \<Rightarrow> string \<Rightarrow> examType \<Rightarrow> jsval list outcome" where
  "getTestQuestions_try eng net topic examType =
     bindO (makeApiRequest eng net ''test'') (\<lambda>content.
     if \<not> truthy content then pureO (Inl (Error ''No content received from API'')) else
     bindO (pureO (catchE (parse_if_string eng content)
                     (\<lambda>error. Inl (Error ''Failed to parse API response'')))) (\<lambda>parsed.
     case opt_prop parsed ''questions'' of
       JArr questions \<Rightarrow>
         bindO (pureO (map_indexed (processQuestion topic examType) 0 questions)) (\<lambda>processedQuestions.
         bindO (pureO (filter_js validateQuestionFormat processedQuestions)) (\<lambda>validQuestions.
         if length validQuestions \<ge> 5 then pureO (Inr (take 15 validQuestions))
         else pureO (Inl (Error (''Only '' @ show_nat (length validQuestions) @
                                 '' valid questions generated'')))))
     | _ \<Rightarrow> pureO (Inl (Error ''Invalid response structure''))))"

definition getTestQuestions ::
  "engine \<Rightarrow> network \<Rightarrow> string \<Rightarrow> examType \<Rightarrow> jsval list outcome" where
  "getTestQuestions eng net topic examType =
     catchO (getTestQuestions_try eng net topic examType)
       (\<lambda>error. pureO (Inl (Error (''Failed to generate test questions: '' @ message eng error))))"

subsection \<open>Streamed explore content\<close>

text \<open>The callbacks that map a related topic and a related question.\<close>

definition topic_entry :: "jsval \<Rightarrow> exn + jsval" where
  "topic_entry topic =
     bindE (get_prop topic ''name'') (\<lambda>name.
     Inr (JObj [(''topic'', name), (''type'', read_prop topic ''type''),
                (''reason'', read_prop topic ''detail'')]))"

definition question_entry :: "jsval \<Rightarrow> exn + jsval" where
  "question_entry question =
     bindE (get_prop question ''text'') (\<lambda>text.
     Inr (JObj [(''question'', text), (''type'', read_prop question ''type''),
                (''context'', read_prop question ''detail'')]))"

text \<open>
  The inner \<open>try\<close>/\<open>catch\<close>: it assigns \<open>topics\<close>, then \<open>questions\<close>, and an exception
  leaves what was assigned before it. The result is the pair of both variables.
\<close>

definition parse_related :: "engine \<Rightarrow> string \<Rightarrow> jsval list \<times> jsval list" where
  "parse_related eng jsonStr =
     (case json_parse eng jsonStr of
        None \<Rightarrow> ([], [])
      | Some parsed \<Rightarrow>
          (case get_prop parsed ''topics'' of
             Inl e \<Rightarrow> ([], [])
           | Inr parsed_topics \<Rightarrow>
               (case (case parsed_topics of
                        JArr ts \<Rightarrow> map_indexed (\<lambda>i. topic_entry) 0 ts
                      | _ \<Rightarrow> Inr []) of
                  Inl e \<Rightarrow> ([], [])
                | Inr topics \<Rightarrow>
                    (case (case read_prop parsed ''questions'' of
                             JArr qs \<Rightarrow> map_indexed (\<lambda>i. question_entry) 0 qs
                           | _ \<Rightarrow> Inr []) of
                       Inl e \<Rightarrow> (topics, [])
                     | Inr questions \<Rightarrow> (topics, questions)))))"

text \<open>\<open>data.candidates && data.candidates[0]?.content?.parts\<close>, for \<open>data\<close> that is not \<open>null\<close>.\<close>

definition candidate_parts :: "jsval \<Rightarrow> jsval" where
  "candidate_parts data =
     (let candidates = read_prop data ''candidates'' in
      if truthy candidates
      then opt_prop (opt_prop (first_elem candidates) ''content'') ''parts''
      else candidates)"

text \<open>\<open>content.split('---')\<close>: a \<open>TypeError\<close> unless \<open>content\<close> is a string.\<close>

definition split_parts :: "jsval \<Rightarrow> exn + string list" where
  "split_parts v = (case v of JStr s \<Rightarrow> Inr (map trim (split s ''---'')) | _ \<Rightarrow> Inl TypeError)"

text \<open>
  The \<open>try\<close> block of \<open>streamExploreContent\<close>. The callback \<open>onChunk\<close> is a parameter:
  \<open>None\<close> where it returns, the error where it throws; the event \<open>OnChunk\<close> records that
  it was invoked. Here the 429 check comes before the check of \<open>response.ok\<close>. The
  destructuring takes the first two parts; \<open>jsonStr\<close> is tested for truthiness only, so
  a missing second part and an empty one are both the empty string here.
\<close>

definition streamExploreContent_try ::
  "engine \<Rightarrow> network \<Rightarrow> (chunk \<Rightarrow> exn option) \<Rightarrow> unit outcome" where
  "streamExploreContent_try eng net onChunk =
     (case net ''streamExplore'' of
        Rejected \<Rightarrow> pureO (Inl TypeError)
      | Resolved response \<Rightarrow>
          bindO (if status response = 429
                 then bindO (pureO (response_json response False)) (\<lambda>data.
                      bindO (pureO (alert_text eng data)) (\<lambda>text. emit (Alert text)))
                 else pureO (Inr ())) (\<lambda>u.
          if \<not> ok response
          then pureO (Inl (Error (''Stream request failed: '' @ show_nat (status response))))
          else
            bindO (pureO (response_json response (status response = 429))) (\<lambda>data.
            bindO (pureO (get_prop data ''candidates'')) (\<lambda>candidates.
            if truthy (candidate_parts data) then
              bindO (pureO (get_prop (first_elem (candidate_parts data)) ''text'')) (\<lambda>content.
              bindO (pureO (split_parts content)) (\<lambda>parts.
              let textContent = (case parts of [] \<Rightarrow> None | t # rest \<Rightarrow> Some t);
                  jsonStr = (case parts of t # j # rest \<Rightarrow> j | _ \<Rightarrow> []);
                  related = (if jsonStr \<noteq> [] then parse_related eng jsonStr else ([], []));
                  piece = \<lparr>chunk_text = textContent,
                           chunk_topics = (if length (fst related) > 0 then Some (fst related) else None),
                           chunk_questions = (if length (snd related) > 0 then Some (snd related) else None)\<rparr>
              in bindO (emit (OnChunk piece)) (\<lambda>u.
                 case onChunk piece of None \<Rightarrow> pureO (Inr ()) | Some e \<Rightarrow> pureO (Inl e))))
            else pureO (Inr ())))))"

definition streamExploreContent ::
  "engine \<Rightarrow> network \<Rightarrow> (chunk \<Rightarrow> exn option) \<Rightarrow> unit outcome" where
  "streamExploreContent eng net onChunk =
     catchO (streamExploreContent_try eng net onChunk)
       (\<lambda>error. pureO (Inl (Error ''Failed to stream content'')))"

section \<open>Notions the properties are stated with\<close>

text \<open>A string that is not empty after trimming and has at least \<open>n\<close> code units.\<close>

definition filled_string :: "jsval \<Rightarrow> nat \<Rightarrow> bool" where
  "filled_string v n = (case v of JStr s \<Rightarrow> trim s \<noteq> [] \<and> n \<le> length s | _ \<Rightarrow> False)"

text \<open>
  The questions the validation accepts, as one executable predicate
  (\<open>validateQuestionFormat_eq\<close> below proves that it is what the method returns).
\<close>

definition well_formed :: "jsval \<Rightarrow> bool" where
  "well_formed q =
     (filled_string (read_prop q ''text'') 10 \<and>
      (case read_prop q ''options'' of
         JArr opts \<Rightarrow> length opts = 4 \<and> list_all (\<lambda>opt. filled_string opt 0) opts \<and> distinct opts
       | _ \<Rightarrow> False) \<and>
      (case read_prop q ''correctAnswer'' of
         JNum n \<Rightarrow> \<not> num_less n (Fin 0) \<and> \<not> num_less (Fin 3) n
       | _ \<Rightarrow> False) \<and>
      filled_string (read_prop (read_prop q ''explanation'') ''correct'') 5 \<and>
      filled_string (read_prop (read_prop q ''explanation'') ''key_point'') 5)"

text \<open>
  The format predicate in the words of the specification (section 4.6): the text is not
  empty after trimming and has at least 10 characters; there are exactly 4 options, each
  not empty after trimming, all distinct; \<open>correctAnswer\<close> is an integer in [0,3]; both
  explanation fields are not empty after trimming and have at least 5 characters.
\<close>

definition spec_validateQuestionFormat :: "jsval \<Rightarrow> bool" where
  "spec_validateQuestionFormat q =
     (filled_string (read_prop q ''text'') 10 \<and>
      (case read_prop q ''options'' of
         JArr opts \<Rightarrow> length opts = 4 \<and> list_all (\<lambda>opt. filled_string opt 0) opts \<and> distinct opts
       | _ \<Rightarrow> False) \<and>
      (case read_prop q ''correctAnswer'' of
         JNum (Fin r) \<Rightarrow> r = of_int \<lfloor>r\<rfloor> \<and> 0 \<le> r \<and> r \<le> 3
       | _ \<Rightarrow> False) \<and>
      filled_string (read_prop (read_prop q ''explanation'') ''correct'') 5 \<and>
      filled_string (read_prop (read_prop q ''explanation'') ''key_point'') 5)"

text \<open>
  An engine for the examples below. It agrees with a JavaScript engine on the few
  inputs the examples give it (\<open>JSON.parse('null')\<close>, the texts of the numbers 12 and
  30, the message of the \<open>TypeError\<close> for a property read on \<open>null\<close>).
\<close>

definition sample_engine :: engine where
  "sample_engine =
     \<lparr>json_parse = (\<lambda>s. if s = ''null'' then Some JNull else None),
      to_text = (\<lambda>v. if v = JNum (Fin 12) then Some ''12'' else None),
      ceil_text = (\<lambda>v. if v = JNum (Fin 30) then Some ''30'' else None),
      native_message = (\<lambda>e. ''Cannot read properties of null'')\<rparr>"

text \<open>
  A raw batch item that is a valid question, what \<open>getTestQuestions\<close> maps it to at
  an index (topic Optics, exam JEE), and a worker that answers every request with a
  batch of \<open>n\<close> copies of the item.
\<close>

definition sample_question :: jsval where
  "sample_question =
     JObj [(''text'', JStr ''What bends light?''),
           (''options'', JArr [JStr ''a lens'', JStr ''a wall'', JStr ''a shadow'', JStr ''a sound'']),
           (''correctAnswer'', JNum (Fin 0)),
           (''explanation'', JObj [(''correct'', JStr ''A lens refracts''),
                                   (''key_point'', JStr ''Refraction'')])]"

definition sample_processed :: "nat \<Rightarrow> jsval" where
  "sample_processed index =
     JObj [(''text'', JStr ''What bends light?''),
           (''options'', JArr [JStr ''a lens'', JStr ''a wall'', JStr ''a shadow'', JStr ''a sound'']),
           (''correctAnswer'', JNum (Fin 0)),
           (''explanation'', JObj [(''correct'', JStr ''A lens refracts''),
                                   (''key_point'', JStr ''Refraction'')]),
           (''difficulty'', JNum (Fin (of_nat (index div 5 + 1)))),
           (''topic'', JStr ''Optics''),
           (''subtopic'', JStr (''Optics Concept '' @ show_nat (index + 1))),
           (''examType'', JStr ''JEE''),
           (''questionType'', JStr ''conceptual''),
           (''ageGroup'', JStr ''16-18'')]"

definition sample_network :: "nat \<Rightarrow> network" where
  "sample_network n =
     (\<lambda>endpoint. Resolved \<lparr>status = 200,
        body = Some (JObj [(''questions'', JArr (replicate n sample_question))])\<rparr>)"

section \<open>Properties\<close>

subsection \<open>Exceptions\<close>

lemma bindE_eq_Inr: "bindE m f = Inr y \<longleftrightarrow> (\<exists>x. m = Inr x \<and> f x = Inr y)"
  by (cases m) (simp_all add: bindE_def)

lemma get_prop_eq_Inr: "get_prop v p = Inr x \<longleftrightarrow> \<not> nullish v \<and> x = read_prop v p"
  by (auto simp: get_prop_def)

lemma opt_prop_read: "opt_prop v p = read_prop v p"
  by (cases v) (simp_all add: opt_prop_def nullish_def)

lemma bindO_pureO_Inr: "bindO (pureO (Inr x)) f = f x"
  by (simp add: bindO_def pureO_def split: prod.splits)

lemma bindO_pureO_Inl: "bindO (pureO (Inl e)) f = pureO (Inl e)"
  by (simp add: bindO_def pureO_def)

lemma bindO_Inr_pure: "f x = pureO r \<Longrightarrow> bindO (evs, Inr x) f = (evs, r)"
  by (simp add: bindO_def pureO_def)

lemma bindO_Inr_fails:
  "\<exists>e. f x = pureO (Inl e) \<Longrightarrow> \<exists>e. bindO (evs, Inr x) f = (evs, Inl e)"
  by (auto simp: bindO_def pureO_def)

lemma catchO_Inl_pure: "catchO (evs, Inl e) (\<lambda>error. pureO r) = (evs, r)"
  by (simp add: catchO_def pureO_def)

lemma catchO_Inr: "catchO (evs, Inr x) h = (evs, Inr x)"
  by (simp add: catchO_def)

lemma bindO_eq_Inr:
  "bindO m f = (evs, Inr y) \<longleftrightarrow>
     (\<exists>evs1 x evs2. m = (evs1, Inr x) \<and> f x = (evs2, Inr y) \<and> evs = evs1 @ evs2)"
  by (cases m) (auto simp: bindO_def split: sum.splits prod.splits)

lemma pureO_eq: "pureO r = (evs, r') \<longleftrightarrow> evs = [] \<and> r = r'"
  by (auto simp: pureO_def)

lemma catchO_eq_Inr:
  "catchO m (\<lambda>error. pureO (Inl (h error))) = (evs, Inr y) \<longleftrightarrow> m = (evs, Inr y)"
  by (cases m) (auto simp: catchO_def pureO_def split: sum.splits)

subsection \<open>What the validation accepts\<close>

lemma not_trim_cases:
  "not_trim v = (case v of JUndefined \<Rightarrow> Inr True | JNull \<Rightarrow> Inr True
                 | JStr s \<Rightarrow> Inr (trim s = []) | _ \<Rightarrow> Inl TypeError)"
  by (cases v) (simp_all add: not_trim_def bindE_def)

lemma not_trim_False: "not_trim v = Inr False \<longleftrightarrow> filled_string v 0"
  by (cases v) (simp_all add: not_trim_cases filled_string_def)

lemma not_trim_result:
  "not_trim v = Inr False \<or> not_trim v = Inr True \<or> not_trim v = Inl TypeError"
  by (cases v) (simp_all add: not_trim_cases)

lemma some_js_not_trim_False:
  "some_js not_trim opts = Inr False \<longleftrightarrow> list_all (\<lambda>opt. filled_string opt 0) opts"
proof (induction opts)
  case Nil
  show ?case by simp
next
  case (Cons x xs)
  from not_trim_result [of x] show ?case
    using Cons.IH by (auto simp: bindE_def not_trim_False [symmetric])
qed

lemma filled_string_length:
  "filled_string v n \<longleftrightarrow> filled_string v 0 \<and> \<not> length_below v n"
  by (cases v) (auto simp: filled_string_def)

lemma read_prop_filled_not_nullish: "filled_string (read_prop v p) n \<Longrightarrow> \<not> nullish v"
  by (cases v) (auto simp: filled_string_def nullish_def)

lemma length_remdups_distinct: "length xs = length (remdups xs) \<longleftrightarrow> distinct xs"
  by (metis length_remdups_eq remdups_id_iff_distinct)

lemma validateQuestionFormat_try_True:
  "validateQuestionFormat_try q = Inr True \<longleftrightarrow> well_formed q"
proof -
  have "validateQuestionFormat_try q = Inr True \<longleftrightarrow>
    (\<not> nullish q \<and> filled_string (read_prop q ''text'') 0 \<and>
     (\<exists>opts. read_prop q ''options'' = JArr opts \<and> length opts = 4 \<and>
        list_all (\<lambda>opt. filled_string opt 0) opts \<and>
        (\<exists>n. read_prop q ''correctAnswer'' = JNum n \<and>
              \<not> num_less n (Fin 0) \<and> \<not> num_less (Fin 3) n) \<and>
        \<not> nullish (read_prop q ''explanation'') \<and>
        filled_string (read_prop (read_prop q ''explanation'') ''correct'') 0 \<and>
        filled_string (read_prop (read_prop q ''explanation'') ''key_point'') 0 \<and>
        \<not> length_below (read_prop q ''text'') 10 \<and>
        length opts = length (remdups opts) \<and>
        \<not> length_below (read_prop (read_prop q ''explanation'') ''correct'') 5 \<and>
        \<not> length_below (read_prop (read_prop q ''explanation'') ''key_point'') 5))"
    unfolding validateQuestionFormat_try_def
    apply (simp add: bindE_eq_Inr get_prop_eq_Inr opt_prop_read not_trim_False
        some_js_not_trim_False split: jsval.split cong: conj_cong)
    by auto
  also have "\<dots> \<longleftrightarrow> well_formed q"
    unfolding well_formed_def
    using read_prop_filled_not_nullish [of q "''text''" 0]
      read_prop_filled_not_nullish [of "read_prop q ''explanation''" "''correct''" 0]
    by (auto simp: filled_string_length [of _ 10] filled_string_length [of _ 5]
        length_remdups_distinct split: jsval.splits)
  finally show ?thesis .
qed

lemma validateQuestionFormat_Inr: "\<exists>b. validateQuestionFormat q = Inr b"
  by (cases "validateQuestionFormat_try q")
    (auto simp add: validateQuestionFormat_def catchE_def)

lemma validateQuestionFormat_eq: "validateQuestionFormat q = Inr (well_formed q)"
proof (cases "validateQuestionFormat_try q")
  case (Inl e)
  with validateQuestionFormat_try_True [of q] show ?thesis
    by (simp add: validateQuestionFormat_def catchE_def)
next
  case (Inr b)
  with validateQuestionFormat_try_True [of q] show ?thesis
    by (cases b) (auto simp add: validateQuestionFormat_def catchE_def)
qed

lemma num_range:
  "(\<not> num_less n (Fin 0) \<and> \<not> num_less (Fin 3) n) \<longleftrightarrow> (\<exists>r. n = Fin r \<and> 0 \<le> r \<and> r \<le> 3)"
  by (cases n) auto

text \<open>
  C2, as amended. \<open>validateQuestionFormat\<close> returns true if and only if: the text is a
  string, not empty after trimming, of at least 10 characters; \<open>options\<close> is an array of
  exactly 4 strings, each not empty after trimming, all distinct; \<open>correctAnswer\<close> is a
  number from 0 to 3, whole or not; \<open>explanation.correct\<close> and \<open>explanation.key_point\<close>
  are strings, not empty after trimming, of at least 5 characters.
\<close>

theorem validateQuestionFormat_accepts:
  "validateQuestionFormat q = Inr True \<longleftrightarrow>
     filled_string (read_prop q ''text'') 10 \<and>
     (\<exists>opts. read_prop q ''options'' = JArr opts \<and> length opts = 4 \<and>
        (\<forall>opt \<in> set opts. filled_string opt 0) \<and> distinct opts) \<and>
     (\<exists>r. read_prop q ''correctAnswer'' = JNum (Fin r) \<and> 0 \<le> r \<and> r \<le> 3) \<and>
     filled_string (read_prop (read_prop q ''explanation'') ''correct'') 5 \<and>
     filled_string (read_prop (read_prop q ''explanation'') ''key_point'') 5"
  unfolding validateQuestionFormat_eq well_formed_def
  by (auto simp: list_all_iff num_range split: jsval.splits)

text \<open>The theorem at a question the validation accepts.\<close>

theorem validateQuestionFormat_accepts_witness:
  "validateQuestionFormat
     (JObj [(''text'', JStr ''What is 2 + 2?''),
            (''options'', JArr [JStr ''1'', JStr ''2'', JStr ''3'', JStr ''4'']),
            (''correctAnswer'', JNum (Fin 3)),
            (''explanation'', JObj [(''correct'', JStr ''It is four''),
                                    (''key_point'', JStr ''Addition'')])]) = Inr True"
  by (rule validateQuestionFormat_accepts [THEN iffD2])
    (simp add: filled_string_def trim_def is_space_def)

text \<open>
  C2 as the specification states it fails: with \<open>correctAnswer\<close> 1.5 the method returns
  true (1.5 is a number, not below 0 and not above 3), and 1.5 is not an integer.
\<close>

theorem validateQuestionFormat_fraction_counterexample:
  "validateQuestionFormat
     (JObj [(''text'', JStr ''What is 2 + 2?''),
            (''options'', JArr [JStr ''1'', JStr ''2'', JStr ''3'', JStr ''4'']),
            (''correctAnswer'', JNum (Fin (3 / 2))),
            (''explanation'', JObj [(''correct'', JStr ''It is four''),
                                    (''key_point'', JStr ''Addition'')])]) = Inr True
   \<and> \<not> spec_validateQuestionFormat
     (JObj [(''text'', JStr ''What is 2 + 2?''),
            (''options'', JArr [JStr ''1'', JStr ''2'', JStr ''3'', JStr ''4'']),
            (''correctAnswer'', JNum (Fin (3 / 2))),
            (''explanation'', JObj [(''correct'', JStr ''It is four''),
                                    (''key_point'', JStr ''Addition'')])])"
proof -
  have "\<lfloor>3 / 2 :: rat\<rfloor> = 1" by linarith
  then show ?thesis
    by (simp add: validateQuestionFormat_eq well_formed_def spec_validateQuestionFormat_def
      filled_string_def trim_def is_space_def)
qed

text \<open>
  C6. \<open>validateQuestionFormat\<close> returns a boolean on every value and never throws; and
  it returns false on every malformed question: \<open>options\<close> that is not an array of 4
  distinct entries, \<open>correctAnswer\<close> that is not a number or is below 0 or above 3, an
  explanation that is missing or not an object, a text that is not a string of at least
  10 characters, an explanation field that is not a string of at least 5 characters.
\<close>

theorem validateQuestionFormat_total:
  "(\<exists>b. validateQuestionFormat q = Inr b) \<and>
   ((\<forall>opts. read_prop q ''options'' = JArr opts \<longrightarrow> length opts \<noteq> 4 \<or> \<not> distinct opts)
    \<or> (\<forall>r. read_prop q ''correctAnswer'' = JNum (Fin r) \<longrightarrow> r < 0 \<or> 3 < r)
    \<or> (\<forall>kvs. read_prop q ''explanation'' \<noteq> JObj kvs)
    \<or> (\<forall>s. read_prop q ''text'' = JStr s \<longrightarrow> length s < 10)
    \<or> (\<forall>s. read_prop (read_prop q ''explanation'') ''correct'' = JStr s \<longrightarrow> length s < 5)
    \<or> (\<forall>s. read_prop (read_prop q ''explanation'') ''key_point'' = JStr s \<longrightarrow> length s < 5)
    \<longrightarrow> validateQuestionFormat q = Inr False)"
proof -
  have obj: "\<exists>kvs. v = JObj kvs" if "read_prop v p = JStr s" for v p s
    using that by (cases v) auto
  show ?thesis
    unfolding validateQuestionFormat_eq well_formed_def
    by (auto simp: num_range filled_string_def dest: obj split: jsval.splits)
qed

text \<open>The theorem at a question with three options, two of them equal, a
  \<open>correctAnswer\<close> that is a string, and an explanation that is a string.\<close>

theorem validateQuestionFormat_total_witness:
  "validateQuestionFormat
     (JObj [(''text'', JStr ''What is 2 + 2?''),
            (''options'', JArr [JStr ''1'', JStr ''2'', JStr ''2'']),
            (''correctAnswer'', JStr ''first''),
            (''explanation'', JStr ''It is four'')]) = Inr False"
  using validateQuestionFormat_total
    [of "JObj [(''text'', JStr ''What is 2 + 2?''),
            (''options'', JArr [JStr ''1'', JStr ''2'', JStr ''2'']),
            (''correctAnswer'', JStr ''first''),
            (''explanation'', JStr ''It is four'')]"]
  by simp

subsection \<open>The shuffle\<close>

lemma pick_le:
  assumes "0 \<le> r" "r < 1"
  shows "nat \<lfloor>r * of_nat (Suc n + 1)\<rfloor> \<le> Suc n"
proof -
  have "r * of_nat (Suc n + 1) < of_nat (Suc n + 1)"
    using assms by (simp add: mult_less_cancel_right2 del: of_nat_Suc of_nat_add)
  then have "\<lfloor>r * of_nat (Suc n + 1)\<rfloor> < int (Suc n + 1)"
    by (simp add: floor_less_iff del: of_nat_Suc of_nat_add)
  then show ?thesis by linarith
qed

lemma length_swap [simp]: "length (swap i j xs) = length xs"
  by (simp add: swap_def)

lemma mset_swap_list: "i < length xs \<Longrightarrow> j < length xs \<Longrightarrow> mset (swap i j xs) = mset xs"
  unfolding swap_def by (rule mset_swap)

lemma length_shuffle_loop [simp]: "length (shuffle_loop random calls i xs) = length xs"
  by (induction i arbitrary: calls xs) (simp_all add: Let_def)

lemma mset_shuffle_loop:
  assumes "\<forall>c. 0 \<le> random c \<and> random c < 1"
  shows "i \<le> length xs - 1 \<Longrightarrow> mset (shuffle_loop random calls i xs) = mset xs"
proof (induction i arbitrary: calls xs)
  case 0
  show ?case by simp
next
  case (Suc n)
  from assms have "nat \<lfloor>random calls * of_nat (Suc n + 1)\<rfloor> \<le> Suc n"
    by (intro pick_le) auto
  with Suc.prems have j: "nat \<lfloor>random calls * of_nat (Suc n + 1)\<rfloor> < length xs" and i: "Suc n < length xs"
    by linarith+
  have "mset (swap (Suc n) (nat \<lfloor>random calls * of_nat (Suc n + 1)\<rfloor>) xs) = mset xs"
    using i j by (rule mset_swap_list)
  moreover have "n \<le> length (swap (Suc n) (nat \<lfloor>random calls * of_nat (Suc n + 1)\<rfloor>) xs) - 1"
    using i by simp
  ultimately show ?case
    using Suc.IH [of "swap (Suc n) (nat \<lfloor>random calls * of_nat (Suc n + 1)\<rfloor>) xs" "Suc calls"]
    by (simp add: Let_def del: of_nat_Suc of_nat_add)
qed

lemma findIndex_none: "\<forall>x\<in>set xs. \<not> p x \<Longrightarrow> findIndex p xs = - 1"
  by (induction xs) (simp_all add: Let_def)

lemma findIndex_some:
  "\<exists>x\<in>set xs. p x \<Longrightarrow>
     0 \<le> findIndex p xs \<and> nat (findIndex p xs) < length xs \<and> p (xs ! nat (findIndex p xs))"
proof (induction xs)
  case Nil
  then show ?case by simp
next
  case (Cons x xs)
  show ?case
  proof (cases "p x")
    case True
    then show ?thesis by simp
  next
    case False
    with Cons.prems have "\<exists>y\<in>set xs. p y" by auto
    from Cons.IH [OF this] False show ?thesis
      by (simp add: Let_def nat_add_distrib)
  qed
qed

lemma map_fst_flags:
  "map fst (map (\<lambda>(idx, opt). (opt, g idx)) (enumerate n opts)) = opts"
  by (induction opts arbitrary: n) simp_all

lemma set_flags:
  "set (map (\<lambda>(idx, opt). (opt, g idx)) (enumerate 0 opts)) = {(opts ! i, g i) | i. i < length opts}"
  by (auto simp: in_set_enumerate_eq image_iff split_def) 

lemma read_prop_update:
  "read_prop (JObj (AList.update k v kvs)) p = (if p = k then v else read_prop (JObj kvs) p)"
  by (simp add: update_conv')

lemma read_prop_JArr_obj: "read_prop q p = JArr xs \<Longrightarrow> JObj (own_props q) = q \<and> \<not> nullish q"
  by (cases q) (simp_all add: nullish_def)

lemma shuffle_value:
  assumes "read_prop q ''options'' = JArr opts"
  shows "shuffleOptionsAndAnswer random q =
     Inr (JObj (AList.update ''correctAnswer''
        (JNum (Fin (of_int (findIndex snd (shuffle_loop random 0 (length opts - 1)
            (map (\<lambda>(idx, opt). (opt, JNum (Fin (of_nat idx)) = read_prop q ''correctAnswer''))
               (enumerate 0 opts)))))))
        (AList.update ''options''
          (JArr (map fst (shuffle_loop random 0 (length opts - 1)
            (map (\<lambda>(idx, opt). (opt, JNum (Fin (of_nat idx)) = read_prop q ''correctAnswer''))
               (enumerate 0 opts)))))
          (own_props q))))"
  using assms read_prop_JArr_obj [OF assms]
  by (simp add: shuffleOptionsAndAnswer_def get_prop_def bindE_def Let_def)

lemma shuffle_once:
  assumes opts: "read_prop q ''options'' = JArr opts"
    and ca: "read_prop q ''correctAnswer'' = JNum (Fin (of_nat k))"
    and k: "k < length opts"
    and random: "\<forall>c. 0 \<le> random c \<and> random c < 1"
  shows "\<exists>q' opts' k'. shuffleOptionsAndAnswer random q = Inr q' \<and>
           read_prop q' ''options'' = JArr opts' \<and> mset opts' = mset opts \<and>
           read_prop q' ''correctAnswer'' = JNum (Fin (of_nat k')) \<and>
           k' < length opts' \<and> opts' ! k' = opts ! k"
proof -
  define flags where "flags = map (\<lambda>(idx, opt). (opt, JNum (Fin (of_nat idx)) = read_prop q ''correctAnswer''))
               (enumerate 0 opts)"
  define shuffled where "shuffled = shuffle_loop random 0 (length opts - 1) flags"
  define k' where "k' = nat (findIndex snd shuffled)"
  have fst_flags: "map fst flags = opts"
    unfolding flags_def by (rule map_fst_flags)
  have set_flags': "set flags = {(opts ! i, i = k) | i. i < length opts}"
    using set_flags [of "\<lambda>idx. JNum (Fin (of_nat idx)) = JNum (Fin (of_nat k))" opts]
    by (simp add: flags_def ca)
  have "length flags = length opts"
    using fst_flags by (metis length_map)
  then have mset_shuffled: "mset shuffled = mset flags"
    unfolding shuffled_def using mset_shuffle_loop [OF random, of "length opts - 1" flags 0] by simp
  then have set_shuffled: "set shuffled = set flags"
    by (rule mset_eq_setD)
  have "(opts ! k, True) \<in> set shuffled"
    using k by (auto simp: set_shuffled set_flags')
  then have "\<exists>x\<in>set shuffled. snd x" by force
  from findIndex_some [OF this]
  have found: "0 \<le> findIndex snd shuffled" "k' < length shuffled" "snd (shuffled ! k')"
    by (simp_all add: k'_def)
  have "shuffled ! k' \<in> set flags"
    using found(2) set_shuffled nth_mem by blast
  with found(3) have at: "shuffled ! k' = (opts ! k, True)"
    by (auto simp: set_flags')
  have mset_opts: "mset (map fst shuffled) = mset opts"
    using mset_shuffled fst_flags by (metis mset_map)
  have result: "shuffleOptionsAndAnswer random q =
      Inr (JObj (AList.update ''correctAnswer'' (JNum (Fin (of_int (findIndex snd shuffled))))
        (AList.update ''options'' (JArr (map fst shuffled)) (own_props q))))"
    unfolding shuffled_def flags_def by (rule shuffle_value [OF opts])
  have "of_int (findIndex snd shuffled) = (of_nat k' :: rat)"
    using found(1) by (simp add: k'_def)
  with result found(2) at mset_opts show ?thesis
    by (simp add: update_conv')
qed


lemma shuffle_repeat:
  assumes random: "\<forall>random \<in> set randoms. \<forall>c. 0 \<le> random c \<and> random c < 1"
  shows "read_prop q ''options'' = JArr opts \<Longrightarrow>
     read_prop q ''correctAnswer'' = JNum (Fin (of_nat k)) \<Longrightarrow> k < length opts \<Longrightarrow>
     \<exists>q' opts' k'. shuffle_repeatedly randoms q = Inr q' \<and>
           read_prop q' ''options'' = JArr opts' \<and> mset opts' = mset opts \<and>
           read_prop q' ''correctAnswer'' = JNum (Fin (of_nat k')) \<and>
           k' < length opts' \<and> opts' ! k' = opts ! k"
  using random
proof (induction randoms arbitrary: q opts k)
  case Nil
  then show ?case by auto
next
  case (Cons random rest)
  from Cons.prems have "\<forall>c. 0 \<le> random c \<and> random c < 1" by simp
  from shuffle_once [OF Cons.prems(1-3) this]
  obtain q1 opts1 k1 where step: "shuffleOptionsAndAnswer random q = Inr q1"
    "read_prop q1 ''options'' = JArr opts1" "mset opts1 = mset opts"
    "read_prop q1 ''correctAnswer'' = JNum (Fin (of_nat k1))" "k1 < length opts1"
    "opts1 ! k1 = opts ! k"
    by blast
  from Cons.prems have "\<forall>random \<in> set rest. \<forall>c. 0 \<le> random c \<and> random c < 1" by simp
  from Cons.IH [OF step(2) step(4) step(5) this]
  obtain q' opts' k' where "shuffle_repeatedly rest q1 = Inr q'"
    "read_prop q' ''options'' = JArr opts'" "mset opts' = mset opts1"
    "read_prop q' ''correctAnswer'' = JNum (Fin (of_nat k'))" "k' < length opts'"
    "opts' ! k' = opts1 ! k1"
    by blast
  with step show ?case
    by (simp add: bindE_def)
qed

text \<open>
  C1. For every question with 4 options and a \<open>correctAnswer\<close> that is an index of
  them, and every sequence of shuffle decisions (each \<open>Math.random()\<close> at least 0 and
  below 1), shuffling any number of times returns a question whose options are a
  permutation of the original ones (the same multiset) and whose \<open>correctAnswer\<close> is an
  index that holds the option the original \<open>correctAnswer\<close> pointed at.
\<close>

theorem shuffle_keeps_options_and_answer:
  assumes "read_prop q ''options'' = JArr opts" and "length opts = 4"
    and "read_prop q ''correctAnswer'' = JNum (Fin (of_nat k))" and "k < 4"
    and "\<forall>random \<in> set randoms. \<forall>c. 0 \<le> random c \<and> random c < 1"
  shows "\<exists>q' opts' k'. shuffle_repeatedly randoms q = Inr q' \<and>
           read_prop q' ''options'' = JArr opts' \<and> mset opts' = mset opts \<and>
           read_prop q' ''correctAnswer'' = JNum (Fin (of_nat k')) \<and>
           k' < 4 \<and> opts' ! k' = opts ! k"
proof -
  from assms have "k < length opts" by simp
  from shuffle_repeat [OF assms(5) assms(1) assms(3) this]
  obtain q' opts' k' where r: "shuffle_repeatedly randoms q = Inr q'"
    "read_prop q' ''options'' = JArr opts'" "mset opts' = mset opts"
    "read_prop q' ''correctAnswer'' = JNum (Fin (of_nat k'))" "k' < length opts'"
    "opts' ! k' = opts ! k"
    by blast
  from r(3) have "length opts' = length opts" by (rule mset_eq_length)
  with r assms(2) show ?thesis by auto
qed

text \<open>The theorem at three shuffles of a question whose fourth option is correct.\<close>

theorem shuffle_keeps_options_and_answer_witness:
  "\<exists>q' opts' k'.
     shuffle_repeatedly [\<lambda>c. 1 / 2, \<lambda>c. 0, \<lambda>c. 3 / 4]
       (JObj [(''text'', JStr ''What is 2 + 2?''),
              (''options'', JArr [JStr ''1'', JStr ''2'', JStr ''3'', JStr ''4'']),
              (''correctAnswer'', JNum (Fin 3))]) = Inr q' \<and>
     read_prop q' ''options'' = JArr opts' \<and>
     mset opts' = mset [JStr ''1'', JStr ''2'', JStr ''3'', JStr ''4''] \<and>
     read_prop q' ''correctAnswer'' = JNum (Fin (of_nat k')) \<and> k' < 4 \<and>
     opts' ! k' = JStr ''4''"
  using shuffle_keeps_options_and_answer
    [of "JObj [(''text'', JStr ''What is 2 + 2?''),
              (''options'', JArr [JStr ''1'', JStr ''2'', JStr ''3'', JStr ''4'']),
              (''correctAnswer'', JNum (Fin 3))]"
        "[JStr ''1'', JStr ''2'', JStr ''3'', JStr ''4'']" 3
        "[\<lambda>c. 1 / 2, \<lambda>c. 0, \<lambda>c. 3 / 4]"]
  by simp

text \<open>
  C10. For every question and every sequence of shuffle decisions, the question the
  shuffle returns has, under every name but \<open>options\<close> and \<open>correctAnswer\<close>, what the
  input has under it (\<open>text\<close>, \<open>explanation\<close>, \<open>difficulty\<close>, \<open>topic\<close>, \<open>subtopic\<close>,
  \<open>questionType\<close>, \<open>ageGroup\<close> and every other field, absent ones included).
\<close>

theorem shuffle_frame:
  assumes "shuffleOptionsAndAnswer random q = Inr q'"
    and "p \<noteq> ''options''" and "p \<noteq> ''correctAnswer''"
  shows "read_prop q' p = read_prop q p"
proof -
  from assms(1) obtain opts where opts: "read_prop q ''options'' = JArr opts"
    by (auto simp: shuffleOptionsAndAnswer_def bindE_eq_Inr get_prop_eq_Inr split: jsval.splits)
  then obtain kvs where q: "q = JObj kvs"
    by (cases q) simp_all
  from assms(1) shuffle_value [OF opts, of random]
  have "q' = JObj (AList.update ''correctAnswer''
        (JNum (Fin (of_int (findIndex snd (shuffle_loop random 0 (length opts - 1)
            (map (\<lambda>(idx, opt). (opt, JNum (Fin (of_nat idx)) = read_prop q ''correctAnswer''))
               (enumerate 0 opts)))))))
        (AList.update ''options''
          (JArr (map fst (shuffle_loop random 0 (length opts - 1)
            (map (\<lambda>(idx, opt). (opt, JNum (Fin (of_nat idx)) = read_prop q ''correctAnswer''))
               (enumerate 0 opts)))))
          kvs))"
    by (simp add: q)
  then show ?thesis
    using assms(2,3) by (simp only: read_prop_update q if_False)
qed


text \<open>The theorem at the \<open>text\<close> of a shuffled question.\<close>

theorem shuffle_frame_witness:
  "shuffleOptionsAndAnswer (\<lambda>c. 1 / 2)
     (JObj [(''text'', JStr ''What is 2 + 2?''),
            (''options'', JArr [JStr ''1'', JStr ''2'', JStr ''3'', JStr ''4'']),
            (''correctAnswer'', JNum (Fin 3))]) =
   Inr (JObj [(''text'', JStr ''What is 2 + 2?''),
              (''options'', JArr [JStr ''1'', JStr ''4'', JStr ''2'', JStr ''3'']),
              (''correctAnswer'', JNum (Fin 1))]) \<and>
   read_prop (JObj [(''text'', JStr ''What is 2 + 2?''),
              (''options'', JArr [JStr ''1'', JStr ''4'', JStr ''2'', JStr ''3'']),
              (''correctAnswer'', JNum (Fin 1))]) ''text'' =
   read_prop (JObj [(''text'', JStr ''What is 2 + 2?''),
            (''options'', JArr [JStr ''1'', JStr ''2'', JStr ''3'', JStr ''4'']),
            (''correctAnswer'', JNum (Fin 3))]) ''text''"
proof -
  have e: "shuffleOptionsAndAnswer (\<lambda>c. 1 / 2)
     (JObj [(''text'', JStr ''What is 2 + 2?''),
            (''options'', JArr [JStr ''1'', JStr ''2'', JStr ''3'', JStr ''4'']),
            (''correctAnswer'', JNum (Fin 3))]) =
   Inr (JObj [(''text'', JStr ''What is 2 + 2?''),
              (''options'', JArr [JStr ''1'', JStr ''4'', JStr ''2'', JStr ''3'']),
              (''correctAnswer'', JNum (Fin 1))])"
    by code_simp
  have "read_prop (JObj [(''text'', JStr ''What is 2 + 2?''),
              (''options'', JArr [JStr ''1'', JStr ''4'', JStr ''2'', JStr ''3'']),
              (''correctAnswer'', JNum (Fin 1))]) ''text'' =
   read_prop (JObj [(''text'', JStr ''What is 2 + 2?''),
            (''options'', JArr [JStr ''1'', JStr ''2'', JStr ''3'', JStr ''4'']),
            (''correctAnswer'', JNum (Fin 3))]) ''text''"
    by (rule shuffle_frame [OF e]) simp_all
  with e show ?thesis by (rule conjI)
qed

lemma shuffle_unindexed:
  assumes opts: "read_prop q ''options'' = JArr opts"
    and ca: "\<forall>i<length opts. read_prop q ''correctAnswer'' \<noteq> JNum (Fin (of_nat i))"
    and random: "\<forall>c. 0 \<le> random c \<and> random c < 1"
  shows "\<exists>q'. shuffleOptionsAndAnswer random q = Inr q' \<and>
           read_prop q' ''correctAnswer'' = JNum (Fin (- 1))"
proof -
  define flags where "flags = map (\<lambda>(idx, opt). (opt, JNum (Fin (of_nat idx)) = read_prop q ''correctAnswer''))
               (enumerate 0 opts)"
  define shuffled where "shuffled = shuffle_loop random 0 (length opts - 1) flags"
  have "set flags = {(opts ! i, JNum (Fin (of_nat i)) = read_prop q ''correctAnswer'') | i. i < length opts}"
    unfolding flags_def by (rule set_flags)
  with ca have none: "\<forall>x\<in>set flags. \<not> snd x"
    by (auto simp: eq_commute)
  have "length flags = length opts"
    by (simp add: flags_def)
  then have "mset shuffled = mset flags"
    unfolding shuffled_def using mset_shuffle_loop [OF random, of "length opts - 1" flags 0] by simp
  then have "set shuffled = set flags"
    by (rule mset_eq_setD)
  with none have "findIndex snd shuffled = - 1"
    by (intro findIndex_none) simp
  moreover have "shuffleOptionsAndAnswer random q =
      Inr (JObj (AList.update ''correctAnswer'' (JNum (Fin (of_int (findIndex snd shuffled))))
        (AList.update ''options'' (JArr (map fst shuffled)) (own_props q))))"
    unfolding shuffled_def flags_def by (rule shuffle_value [OF opts])
  ultimately show ?thesis
    by (simp add: update_conv')
qed

lemma formatQuestion_correctAnswer:
  "formatQuestion eng topic level ctx q q' = Inr fq \<Longrightarrow>
     read_prop fq ''correctAnswer'' = read_prop q' ''correctAnswer''"
  by (auto simp: formatQuestion_def bindE_eq_Inr)

lemma negative_answer_invalid:
  "read_prop fq ''correctAnswer'' = JNum (Fin (- 1)) \<Longrightarrow> validateQuestionFormat fq = Inr False"
  by (simp add: validateQuestionFormat_eq well_formed_def)

text \<open>
  C9. For every question with an options array whose \<open>correctAnswer\<close> equals no index
  of it, the shuffle returns a question with \<open>correctAnswer\<close> -1; the question
  \<open>getPlaygroundQuestion\<close> formats from it fails \<open>validateQuestionFormat\<close>, and the
  operation fails instead of returning it.
\<close>

theorem unindexed_answer_fails:
  assumes opts: "read_prop q ''options'' = JArr opts"
    and ca: "\<forall>i<length opts. read_prop q ''correctAnswer'' \<noteq> JNum (Fin (of_nat i))"
    and random: "\<forall>c. 0 \<le> random c \<and> random c < 1"
    and reply: "makeApiRequest eng net ''playground'' = (evs, Inr reply)"
    and parsed: "parse_if_string eng reply = Inr q"
  shows "(\<exists>q'. shuffleOptionsAndAnswer random q = Inr q' \<and>
            read_prop q' ''correctAnswer'' = JNum (Fin (- 1)) \<and>
            (\<forall>fq. formatQuestion eng topic level ctx q q' = Inr fq \<longrightarrow>
                  validateQuestionFormat fq = Inr False)) \<and>
         getPlaygroundQuestion eng net random topic level ctx =
           (evs, Inl (Error ''Failed to generate valid question''))"
proof -
  from shuffle_unindexed [OF opts ca random]
  obtain q' where q': "shuffleOptionsAndAnswer random q = Inr q'"
    "read_prop q' ''correctAnswer'' = JNum (Fin (- 1))"
    by blast
  have invalid: "validateQuestionFormat fq = Inr False"
    if "formatQuestion eng topic level ctx q q' = Inr fq" for fq
    using formatQuestion_correctAnswer [OF that] q'(2) by (simp add: negative_answer_invalid)
  have "\<exists>e. getPlaygroundQuestion_try eng net random topic level ctx = (evs, Inl e)"
  proof (cases "formatQuestion eng topic level ctx q q'")
    case (Inl e)
    then show ?thesis
      unfolding getPlaygroundQuestion_try_def reply
      by (intro bindO_Inr_fails)
        (auto simp add: parsed q' catchE_def bindO_pureO_Inr bindO_pureO_Inl)
  next
    case (Inr fq)
    then show ?thesis
      unfolding getPlaygroundQuestion_try_def reply
      by (intro bindO_Inr_fails)
        (auto simp add: parsed q' invalid catchE_def bindO_pureO_Inr bindO_pureO_Inl)
  qed
  then have "getPlaygroundQuestion eng net random topic level ctx =
      (evs, Inl (Error ''Failed to generate valid question''))"
    by (auto simp: getPlaygroundQuestion_def catchO_Inl_pure)
  with q' invalid show ?thesis by blast
qed

text \<open>The theorem at a reply whose \<open>correctAnswer\<close> is 7.\<close>

theorem unindexed_answer_fails_witness:
  "getPlaygroundQuestion sample_engine
     (\<lambda>endpoint. Resolved \<lparr>status = 200, body = Some
        (JObj [(''text'', JStr ''What is 2 + 2?''),
               (''options'', JArr [JStr ''1'', JStr ''2'', JStr ''3'', JStr ''4'']),
               (''correctAnswer'', JNum (Fin 7)),
               (''explanation'', JObj [(''correct'', JStr ''It is four''),
                                       (''key_point'', JStr ''Addition'')])])\<rparr>)
     (\<lambda>c. 0) ''Sums'' (Fin 1) \<lparr>age = Fin 12\<rparr> =
   ([], Inl (Error ''Failed to generate valid question''))"
proof -
  have reply: "makeApiRequest sample_engine
     (\<lambda>endpoint. Resolved \<lparr>status = 200, body = Some
        (JObj [(''text'', JStr ''What is 2 + 2?''),
               (''options'', JArr [JStr ''1'', JStr ''2'', JStr ''3'', JStr ''4'']),
               (''correctAnswer'', JNum (Fin 7)),
               (''explanation'', JObj [(''correct'', JStr ''It is four''),
                                       (''key_point'', JStr ''Addition'')])])\<rparr>)
     ''playground'' =
     ([], Inr (JObj [(''text'', JStr ''What is 2 + 2?''),
               (''options'', JArr [JStr ''1'', JStr ''2'', JStr ''3'', JStr ''4'']),
               (''correctAnswer'', JNum (Fin 7)),
               (''explanation'', JObj [(''correct'', JStr ''It is four''),
                                       (''key_point'', JStr ''Addition'')])]))"
    by (simp add: makeApiRequest_def makeApiRequest_try_def ok_def response_json_def
        bindO_def pureO_def catchO_def)
  show ?thesis
    by (rule unindexed_answer_fails
          [where opts = "[JStr ''1'', JStr ''2'', JStr ''3'', JStr ''4'']",
           OF _ _ _ reply, THEN conjunct2])
      (simp_all add: parse_if_string_def less_Suc_eq numeral_eq_Suc)
qed

subsection \<open>The request envelope\<close>

lemma show_nat_429: "show_nat 429 = ''429''"
  by code_simp

text \<open>Whatever the worker answers, the trace of \<open>makeApiRequest\<close> is empty: it never
  issues an alert.\<close>

lemma makeApiRequest_events: "fst (makeApiRequest eng net endpoint) = []"
  by (auto simp: makeApiRequest_def makeApiRequest_try_def catchO_def pureO_def bindO_def ok_def
      split: fetch_result.splits prod.splits sum.splits)

lemma makeApiRequest_ok:
  "net endpoint = Resolved \<lparr>status = 200, body = Some v\<rparr> \<Longrightarrow>
     makeApiRequest eng net endpoint = ([], Inr v)"
  by (simp add: makeApiRequest_def makeApiRequest_try_def ok_def response_json_def
      bindO_def pureO_def catchO_def)

text \<open>
  C5. \<open>makeApiRequest\<close> checks \<open>response.ok\<close> first and throws, and only then
  compares the status with 429. So for every response with status 429, which is not a
  2xx status, the \<open>try\<close> block throws the request-failed error, the call fails with
  the error of its \<open>catch\<close>, and the trace is empty: no alert is issued.
\<close>

theorem makeApiRequest_429:
  assumes "net endpoint = Resolved response" and "status response = 429"
  shows "makeApiRequest_try eng net endpoint = ([], Inl (Error ''API request failed: 429'')) \<and>
         makeApiRequest eng net endpoint = ([], Inl (Error ''Failed to make API request''))"
  using assms
  by (simp add: makeApiRequest_def makeApiRequest_try_def ok_def pureO_def catchO_def show_nat_429)

text \<open>The theorem at a 429 response that carries a \<open>retryAfter\<close>.\<close>

theorem makeApiRequest_429_witness:
  "makeApiRequest sample_engine
     (\<lambda>endpoint. Resolved \<lparr>status = 429, body = Some (JObj [(''retryAfter'', JNum (Fin 30))])\<rparr>)
     ''explore'' = ([], Inl (Error ''Failed to make API request''))"
  by (rule makeApiRequest_429
        [where response = "\<lparr>status = 429, body = Some (JObj [(''retryAfter'', JNum (Fin 30))])\<rparr>",
         THEN conjunct2])
    simp_all

subsection \<open>Streamed explore content\<close>

text \<open>
  C7, as amended. For every response with a 2xx status whose body parses to a JSON value
  other than \<open>null\<close> for which \<open>data.candidates && data.candidates[0]?.content?.parts\<close>
  is falsy (the \<open>candidates[0].content.parts\<close> shape is lacking),
  \<open>streamExploreContent\<close> never invokes \<open>onChunk\<close> and completes normally.
\<close>

theorem streamExploreContent_no_candidates:
  assumes "net ''streamExplore'' = Resolved response" and "ok response"
    and "body response = Some data" and "\<not> nullish data"
    and "\<not> truthy (read_prop data ''candidates'') \<or>
         \<not> truthy (opt_prop (opt_prop (first_elem (read_prop data ''candidates'')) ''content'') ''parts'')"
  shows "streamExploreContent eng net onChunk = ([], Inr ())"
proof -
  from assms(2) have "status response \<noteq> 429"
    by (auto simp: ok_def)
  moreover from assms(5) have "\<not> truthy (candidate_parts data)"
    by (auto simp: candidate_parts_def Let_def)
  ultimately show ?thesis
    using assms(1-4)
    by (simp add: streamExploreContent_def streamExploreContent_try_def response_json_def
        get_prop_def bindO_def pureO_def catchO_def)
qed

text \<open>The theorem at a body with an empty \<open>candidates\<close> array.\<close>

theorem streamExploreContent_no_candidates_witness:
  "streamExploreContent sample_engine
     (\<lambda>endpoint. Resolved \<lparr>status = 200, body = Some (JObj [(''candidates'', JArr [])])\<rparr>)
     (\<lambda>piece. None) = ([], Inr ())"
  by (rule streamExploreContent_no_candidates
        [where data = "JObj [(''candidates'', JArr [])]" and response = "\<lparr>status = 200, body = Some (JObj [(''candidates'', JArr [])])\<rparr>"])
    (simp_all add: ok_def nullish_def opt_prop_def)

text \<open>
  C7 as the specification states it fails: the body \<open>null\<close> parses as JSON and has no
  \<open>candidates\<close>, and reading \<open>data.candidates\<close> throws, so the call fails; and a body of
  a response with status 500 is never looked at, the call fails on the status.
\<close>

theorem streamExploreContent_null_counterexample:
  "streamExploreContent sample_engine
     (\<lambda>endpoint. Resolved \<lparr>status = 200, body = Some JNull\<rparr>) (\<lambda>piece. None) =
     ([], Inl (Error ''Failed to stream content''))
   \<and> streamExploreContent sample_engine
     (\<lambda>endpoint. Resolved \<lparr>status = 500, body = Some (JObj [])\<rparr>) (\<lambda>piece. None) =
     ([], Inl (Error ''Failed to stream content''))"
  by (simp add: streamExploreContent_def streamExploreContent_try_def response_json_def ok_def
      get_prop_def nullish_def bindO_def pureO_def catchO_def)


subsection \<open>Explore content\<close>

lemma getExploreContent_fails:
  "getExploreContent_try eng net = (evs, Inl e) \<Longrightarrow>
     getExploreContent eng net = (evs, Inl (Error ''Failed to generate explore content''))"
  by (simp add: getExploreContent_def catchO_Inl_pure)

lemma getExploreContent_returns:
  "getExploreContent_try eng net = (evs, Inr r) \<Longrightarrow> getExploreContent eng net = (evs, Inr r)"
  by (simp add: getExploreContent_def catchO_Inr)

text \<open>
  C4, as amended. Where the request succeeded with a truthy reply and the value parsed
  from it is not \<open>null\<close>: if that value is missing any of \<open>domain\<close>, \<open>content\<close>,
  \<open>content.paragraph1\<close>, \<open>content.paragraph2\<close>, \<open>content.paragraph3\<close>, the \<open>try\<close> block
  of \<open>getExploreContent\<close> throws the invalid-response-shape error and the call fails
  with the error of its \<open>catch\<close>; and if \<open>domain\<close> is truthy and the paragraphs are
  \<open>"A"\<close>, \<open>"B"\<close>, \<open>"C"\<close>, the call returns a response whose content is
  \<open>"A\n\nB\n\nC"\<close>.
\<close>

theorem getExploreContent_shape:
  assumes reply: "makeApiRequest eng net ''explore'' = (evs, Inr reply)"
    and nonempty: "truthy reply"
    and parsed: "parse_if_string eng reply = Inr p"
    and p: "\<not> nullish p"
  shows "(read_prop p ''domain'' = JUndefined \<or>
          read_prop p ''content'' = JUndefined \<or>
          read_prop (read_prop p ''content'') ''paragraph1'' = JUndefined \<or>
          read_prop (read_prop p ''content'') ''paragraph2'' = JUndefined \<or>
          read_prop (read_prop p ''content'') ''paragraph3'' = JUndefined \<longrightarrow>
            getExploreContent_try eng net = (evs, Inl (Error ''Invalid response structure'')) \<and>
            getExploreContent eng net = (evs, Inl (Error ''Failed to generate explore content'')))
         \<and> (truthy (read_prop p ''domain'') \<and>
            read_prop (read_prop p ''content'') ''paragraph1'' = JStr ''A'' \<and>
            read_prop (read_prop p ''content'') ''paragraph2'' = JStr ''B'' \<and>
            read_prop (read_prop p ''content'') ''paragraph3'' = JStr ''C'' \<longrightarrow>
              (\<exists>r. getExploreContent eng net = (evs, Inr r) \<and>
                   content r = ''A\<newline>\<newline>B\<newline>\<newline>C''))"
proof (intro conjI impI)
  assume missing: "read_prop p ''domain'' = JUndefined \<or>
          read_prop p ''content'' = JUndefined \<or>
          read_prop (read_prop p ''content'') ''paragraph1'' = JUndefined \<or>
          read_prop (read_prop p ''content'') ''paragraph2'' = JUndefined \<or>
          read_prop (read_prop p ''content'') ''paragraph3'' = JUndefined"
  then have "\<not> truthy (read_prop p ''domain'') \<or> \<not> truthy (read_prop p ''content'') \<or>
        \<not> truthy (read_prop (read_prop p ''content'') ''paragraph1'') \<or>
        \<not> truthy (read_prop (read_prop p ''content'') ''paragraph2'') \<or>
        \<not> truthy (read_prop (read_prop p ''content'') ''paragraph3'')"
    by auto
  then show failed: "getExploreContent_try eng net = (evs, Inl (Error ''Invalid response structure''))"
    unfolding getExploreContent_try_def reply
    by (intro bindO_Inr_pure)
      (simp add: nonempty parsed p catchE_def get_prop_def bindO_pureO_Inr Let_def)
  then show "getExploreContent eng net = (evs, Inl (Error ''Failed to generate explore content''))"
    by (rule getExploreContent_fails)
next
  assume present: "truthy (read_prop p ''domain'') \<and>
            read_prop (read_prop p ''content'') ''paragraph1'' = JStr ''A'' \<and>
            read_prop (read_prop p ''content'') ''paragraph2'' = JStr ''B'' \<and>
            read_prop (read_prop p ''content'') ''paragraph3'' = JStr ''C''"
  then have "truthy (read_prop p ''content'')"
    by (cases "read_prop p ''content''") auto
  with present have "getExploreContent_try eng net =
     (evs, Inr \<lparr>content = ''A\<newline>\<newline>B\<newline>\<newline>C'',
                relatedTopics = first_five (read_prop p ''relatedTopics''),
                relatedQuestions = first_five (read_prop p ''relatedQuestions'')\<rparr>)"
    unfolding getExploreContent_try_def reply
    by (intro bindO_Inr_pure)
      (simp add: nonempty parsed p catchE_def get_prop_def bindO_pureO_Inr Let_def
        join_text_def bindE_def)
  from getExploreContent_returns [OF this]
  show "\<exists>r. getExploreContent eng net = (evs, Inr r) \<and>
           content r = ''A\<newline>\<newline>B\<newline>\<newline>C''"
    by simp
qed

text \<open>The theorem at a reply with all four fields, and at a reply without \<open>domain\<close>.\<close>

theorem getExploreContent_shape_witness:
  "(\<exists>r. getExploreContent sample_engine
      (\<lambda>endpoint. Resolved \<lparr>status = 200, body = Some
         (JObj [(''domain'', JStr ''physics''),
                (''content'', JObj [(''paragraph1'', JStr ''A''), (''paragraph2'', JStr ''B''),
                                    (''paragraph3'', JStr ''C'')])])\<rparr>) = ([], Inr r) \<and>
      content r = ''A\<newline>\<newline>B\<newline>\<newline>C'')
   \<and> getExploreContent_try sample_engine
      (\<lambda>endpoint. Resolved \<lparr>status = 200, body = Some
         (JObj [(''content'', JObj [(''paragraph1'', JStr ''A''), (''paragraph2'', JStr ''B''),
                                    (''paragraph3'', JStr ''C'')])])\<rparr>) =
       ([], Inl (Error ''Invalid response structure''))"
proof (rule conjI)
  have full: "makeApiRequest sample_engine
      (\<lambda>endpoint. Resolved \<lparr>status = 200, body = Some
         (JObj [(''domain'', JStr ''physics''),
                (''content'', JObj [(''paragraph1'', JStr ''A''), (''paragraph2'', JStr ''B''),
                                    (''paragraph3'', JStr ''C'')])])\<rparr>) ''explore'' =
      ([], Inr (JObj [(''domain'', JStr ''physics''),
                (''content'', JObj [(''paragraph1'', JStr ''A''), (''paragraph2'', JStr ''B''),
                                    (''paragraph3'', JStr ''C'')])]))"
    by (rule makeApiRequest_ok) simp
  show "\<exists>r. getExploreContent sample_engine
      (\<lambda>endpoint. Resolved \<lparr>status = 200, body = Some
         (JObj [(''domain'', JStr ''physics''),
                (''content'', JObj [(''paragraph1'', JStr ''A''), (''paragraph2'', JStr ''B''),
                                    (''paragraph3'', JStr ''C'')])])\<rparr>) = ([], Inr r) \<and>
      content r = ''A\<newline>\<newline>B\<newline>\<newline>C''"
    by (rule getExploreContent_shape
          [where p = "JObj [(''domain'', JStr ''physics''),
                (''content'', JObj [(''paragraph1'', JStr ''A''), (''paragraph2'', JStr ''B''),
                                    (''paragraph3'', JStr ''C'')])]",
           OF full, THEN conjunct2, THEN mp])
      (simp_all add: parse_if_string_def nullish_def)
  have partial: "makeApiRequest sample_engine
      (\<lambda>endpoint. Resolved \<lparr>status = 200, body = Some
         (JObj [(''content'', JObj [(''paragraph1'', JStr ''A''), (''paragraph2'', JStr ''B''),
                                    (''paragraph3'', JStr ''C'')])])\<rparr>) ''explore'' =
      ([], Inr (JObj [(''content'', JObj [(''paragraph1'', JStr ''A''),
                                    (''paragraph2'', JStr ''B''), (''paragraph3'', JStr ''C'')])]))"
    by (rule makeApiRequest_ok) simp
  show "getExploreContent_try sample_engine
      (\<lambda>endpoint. Resolved \<lparr>status = 200, body = Some
         (JObj [(''content'', JObj [(''paragraph1'', JStr ''A''), (''paragraph2'', JStr ''B''),
                                    (''paragraph3'', JStr ''C'')])])\<rparr>) =
       ([], Inl (Error ''Invalid response structure''))"
    by (rule getExploreContent_shape
          [where p = "JObj [(''content'', JObj [(''paragraph1'', JStr ''A''),
                                    (''paragraph2'', JStr ''B''), (''paragraph3'', JStr ''C'')])]",
           OF partial, THEN conjunct1, THEN mp, THEN conjunct1])
      (simp_all add: parse_if_string_def nullish_def)
qed

text \<open>
  C4 as the specification states it fails: the body \<open>null\<close> holds none of the fields, and
  the call fails on the empty-response check, before the shape is looked at; and the
  body \<open>"null"\<close>, a string, parses to \<open>null\<close>, and reading \<open>parsedContent.domain\<close> throws a
  \<open>TypeError\<close>, not the invalid-response-shape error.
\<close>

theorem getExploreContent_null_counterexample:
  "getExploreContent_try sample_engine
      (\<lambda>endpoint. Resolved \<lparr>status = 200, body = Some JNull\<rparr>) =
     ([], Inl (Error ''Empty response from API''))
   \<and> getExploreContent_try sample_engine
      (\<lambda>endpoint. Resolved \<lparr>status = 200, body = Some (JStr ''null'')\<rparr>) =
     ([], Inl TypeError)"
  by (simp add: getExploreContent_try_def makeApiRequest_ok parse_if_string_def sample_engine_def
      get_prop_def nullish_def catchE_def bindO_def pureO_def)


subsection \<open>Exam questions\<close>

lemma processQuestion_Inr:
  "\<not> nullish q \<Longrightarrow> \<exists>p. processQuestion topic examType index q = Inr p"
  by (simp add: processQuestion_def get_prop_def bindE_def Let_def)

lemma map_indexed_total:
  "(\<And>j x. x \<in> set xs \<Longrightarrow> \<exists>y. f j x = Inr y) \<Longrightarrow>
     \<exists>ys. map_indexed f i xs = Inr ys \<and> length ys = length xs"
proof (induction xs arbitrary: i)
  case Nil
  show ?case by simp
next
  case (Cons x xs)
  from Cons.prems [of x i] obtain y where y: "f i x = Inr y" by auto
  have "\<exists>ys. map_indexed f (Suc i) xs = Inr ys \<and> length ys = length xs"
    by (rule Cons.IH) (use Cons.prems in auto)
  then obtain ys where "map_indexed f (Suc i) xs = Inr ys" "length ys = length xs" by blast
  with y show ?case by (simp add: bindE_def)
qed

lemma filter_js_validate:
  "filter_js validateQuestionFormat ps =
     Inr (filter (\<lambda>q. validateQuestionFormat q = Inr True) ps)"
  by (induction ps) (simp_all add: bindE_def validateQuestionFormat_eq)

lemma getTestQuestions_fails:
  "getTestQuestions_try eng net topic examType = (evs, Inl e) \<Longrightarrow>
     getTestQuestions eng net topic examType =
       (evs, Inl (Error (''Failed to generate test questions: '' @ message eng e)))"
  by (simp add: getTestQuestions_def catchO_def pureO_def)

lemma getTestQuestions_returns:
  "getTestQuestions_try eng net topic examType = (evs, Inr qs) \<Longrightarrow>
     getTestQuestions eng net topic examType = (evs, Inr qs)"
  by (simp add: getTestQuestions_def catchO_Inr)

text \<open>
  C3, as amended. For every reply that holds a \<open>questions\<close> array with no \<open>null\<close> item,
  every item is mapped, and with \<open>valid\<close> the mapped questions that pass the format
  validation, in their order: \<open>getTestQuestions\<close> fails with the error that carries
  the number of valid questions if they are fewer than 5, and otherwise returns the
  first 15 of them (all of them, if there are fewer).
\<close>

theorem getTestQuestions_counts:
  assumes reply: "makeApiRequest eng net ''test'' = (evs, Inr reply)"
    and nonempty: "truthy reply"
    and parsed: "parse_if_string eng reply = Inr parsed"
    and items: "read_prop parsed ''questions'' = JArr items"
    and objects: "\<forall>q\<in>set items. \<not> nullish q"
  shows "\<exists>processed valid.
           map_indexed (processQuestion topic examType) 0 items = Inr processed \<and>
           length processed = length items \<and>
           valid = filter (\<lambda>q. validateQuestionFormat q = Inr True) processed \<and>
           getTestQuestions eng net topic examType =
             (evs, if length valid < 5
                   then Inl (Error (''Failed to generate test questions: Only '' @
                               show_nat (length valid) @ '' valid questions generated''))
                   else Inr (take 15 valid))"
proof -
  have "\<exists>ys. map_indexed (processQuestion topic examType) 0 items = Inr ys \<and> length ys = length items"
    using objects by (intro map_indexed_total) (auto intro: processQuestion_Inr)
  then obtain processed where processed:
    "map_indexed (processQuestion topic examType) 0 items = Inr processed"
    "length processed = length items"
    by blast
  define valid where "valid = filter (\<lambda>q. validateQuestionFormat q = Inr True) processed"
  have questions: "opt_prop parsed ''questions'' = JArr items"
    using items by (simp add: opt_prop_read)
  have tried: "getTestQuestions_try eng net topic examType =
      (evs, if length valid < 5
            then Inl (Error (''Only '' @ show_nat (length valid) @ '' valid questions generated''))
            else Inr (take 15 valid))"
    unfolding getTestQuestions_try_def reply
    by (intro bindO_Inr_pure)
      (simp add: nonempty parsed questions processed filter_js_validate valid_def
        catchE_def bindO_pureO_Inr)
  have "getTestQuestions eng net topic examType =
      (evs, if length valid < 5
            then Inl (Error (''Failed to generate test questions: Only '' @
                        show_nat (length valid) @ '' valid questions generated''))
            else Inr (take 15 valid))"
  proof (cases "length valid < 5")
    case True
    with tried getTestQuestions_fails [of eng net topic examType evs] show ?thesis
      by (simp add: message_def)
  next
    case False
    with tried getTestQuestions_returns [of eng net topic examType evs] show ?thesis
      by simp
  qed
  with processed valid_def show ?thesis by blast
qed

text \<open>The theorem at a batch of one valid item, and at a batch of five.\<close>

theorem getTestQuestions_counts_witness:
  "getTestQuestions sample_engine (sample_network 1) ''Optics'' JEE =
     ([], Inl (Error ''Failed to generate test questions: Only 1 valid questions generated''))
   \<and> getTestQuestions sample_engine (sample_network 5) ''Optics'' JEE =
     ([], Inr (map sample_processed [0, 1, 2, 3, 4]))"
proof (rule conjI)
  have reply: "makeApiRequest sample_engine (sample_network 1) ''test'' =
      ([], Inr (JObj [(''questions'', JArr (replicate 1 sample_question))]))"
    by (rule makeApiRequest_ok) (simp add: sample_network_def)
  have m: "map_indexed (processQuestion ''Optics'' JEE) 0 (replicate 1 sample_question) =
      Inr [sample_processed 0]"
    by code_simp
  have v: "filter (\<lambda>q. validateQuestionFormat q = Inr True) [sample_processed 0] =
      [sample_processed 0]"
    by code_simp
  have n: "show_nat 1 = ''1''"
    by code_simp
  have "\<exists>processed valid.
      map_indexed (processQuestion ''Optics'' JEE) 0 (replicate 1 sample_question) = Inr processed \<and>
      length processed = length (replicate 1 sample_question) \<and>
      valid = filter (\<lambda>q. validateQuestionFormat q = Inr True) processed \<and>
      getTestQuestions sample_engine (sample_network 1) ''Optics'' JEE =
        (([] :: event list), if length valid < 5
              then Inl (Error (''Failed to generate test questions: Only '' @
                          show_nat (length valid) @ '' valid questions generated''))
              else Inr (take 15 valid))"
    by (rule getTestQuestions_counts
          [where parsed = "JObj [(''questions'', JArr (replicate 1 sample_question))]"
             and items = "replicate 1 sample_question", OF reply])
      (simp_all add: parse_if_string_def nullish_def sample_question_def)
  with m v n show "getTestQuestions sample_engine (sample_network 1) ''Optics'' JEE =
     ([], Inl (Error ''Failed to generate test questions: Only 1 valid questions generated''))"
    by auto
next
  have reply: "makeApiRequest sample_engine (sample_network 5) ''test'' =
      ([], Inr (JObj [(''questions'', JArr (replicate 5 sample_question))]))"
    by (rule makeApiRequest_ok) (simp add: sample_network_def)
  have m: "map_indexed (processQuestion ''Optics'' JEE) 0 (replicate 5 sample_question) =
      Inr (map sample_processed [0, 1, 2, 3, 4])"
    by code_simp
  have v: "filter (\<lambda>q. validateQuestionFormat q = Inr True) (map sample_processed [0, 1, 2, 3, 4]) =
      map sample_processed [0, 1, 2, 3, 4]"
    by code_simp
  have "\<exists>processed valid.
      map_indexed (processQuestion ''Optics'' JEE) 0 (replicate 5 sample_question) = Inr processed \<and>
      length processed = length (replicate 5 sample_question) \<and>
      valid = filter (\<lambda>q. validateQuestionFormat q = Inr True) processed \<and>
      getTestQuestions sample_engine (sample_network 5) ''Optics'' JEE =
        (([] :: event list), if length valid < 5
              then Inl (Error (''Failed to generate test questions: Only '' @
                          show_nat (length valid) @ '' valid questions generated''))
              else Inr (take 15 valid))"
    by (rule getTestQuestions_counts
          [where parsed = "JObj [(''questions'', JArr (replicate 5 sample_question))]"
             and items = "replicate 5 sample_question", OF reply])
      (simp_all add: parse_if_string_def nullish_def sample_question_def)
  with m v show "getTestQuestions sample_engine (sample_network 5) ''Optics'' JEE =
     ([], Inr (map sample_processed [0, 1, 2, 3, 4]))"
    by auto
qed

text \<open>
  C3 as the specification states it fails: the reply holds a \<open>questions\<close> array, of the
  single item \<open>null\<close>; no mapped question passes validation, and the call fails with
  the message of the \<open>TypeError\<close> of \<open>q.text\<close>, not with the count.
\<close>

theorem getTestQuestions_null_item_counterexample:
  "getTestQuestions sample_engine
     (\<lambda>endpoint. Resolved \<lparr>status = 200, body = Some (JObj [(''questions'', JArr [JNull])])\<rparr>)
     ''Optics'' JEE =
   ([], Inl (Error ''Failed to generate test questions: Cannot read properties of null''))"
  by (simp add: getTestQuestions_def getTestQuestions_try_def makeApiRequest_ok
      parse_if_string_def opt_prop_def nullish_def processQuestion_def get_prop_def
      message_def sample_engine_def catchE_def bindE_def bindO_def pureO_def catchO_def)


lemma getTestQuestions_Inr_valid:
  assumes "getTestQuestions eng net topic examType = (evs, Inr qs)"
  shows "\<forall>r\<in>set qs. well_formed r"
proof -
  from assms have "getTestQuestions_try eng net topic examType = (evs, Inr qs)"
    by (simp add: getTestQuestions_def catchO_eq_Inr)
  then obtain reply evs2 where
    "(if \<not> truthy reply then pureO (Inl (Error ''No content received from API'')) else
      bindO (pureO (catchE (parse_if_string eng reply)
                      (\<lambda>error. Inl (Error ''Failed to parse API response'')))) (\<lambda>parsed.
      case opt_prop parsed ''questions'' of
        JArr questions \<Rightarrow>
          bindO (pureO (map_indexed (processQuestion topic examType) 0 questions)) (\<lambda>processedQuestions.
          bindO (pureO (filter_js validateQuestionFormat processedQuestions)) (\<lambda>validQuestions.
          if length validQuestions \<ge> 5 then pureO (Inr (take 15 validQuestions))
          else pureO (Inl (Error (''Only '' @ show_nat (length validQuestions) @
                                  '' valid questions generated'')))))
      | _ \<Rightarrow> pureO (Inl (Error ''Invalid response structure'')))) = (evs2, Inr qs)"
    unfolding getTestQuestions_try_def bindO_eq_Inr [of "makeApiRequest eng net ''test''"]
    by blast
  then obtain parsed evs3 where branch:
    "(case opt_prop parsed ''questions'' of
        JArr questions \<Rightarrow>
          bindO (pureO (map_indexed (processQuestion topic examType) 0 questions)) (\<lambda>processedQuestions.
          bindO (pureO (filter_js validateQuestionFormat processedQuestions)) (\<lambda>validQuestions.
          if length validQuestions \<ge> 5 then pureO (Inr (take 15 validQuestions))
          else pureO (Inl (Error (''Only '' @ show_nat (length validQuestions) @
                                  '' valid questions generated'')))))
      | _ \<Rightarrow> pureO (Inl (Error ''Invalid response structure''))) = (evs3, Inr qs)"
    by (auto simp: bindO_eq_Inr pureO_eq split: if_splits)
  have "\<exists>processed. qs = take 15 (filter (\<lambda>q. validateQuestionFormat q = Inr True) processed)"
  proof (cases "opt_prop parsed ''questions''")
    case (JArr questions)
    with branch show ?thesis
      by (auto simp: bindO_eq_Inr pureO_eq filter_js_validate split: if_splits)
  qed (insert branch, simp_all add: pureO_def)
  then show ?thesis
    by (auto simp: validateQuestionFormat_eq dest!: in_set_takeD)
qed

lemma filled_string_JStr: "filled_string v n \<Longrightarrow> \<exists>s. v = JStr s \<and> s \<noteq> []"
  by (cases v) (auto simp: filled_string_def trim_def)

lemma read_prop_JStr_obj: "read_prop v p = JStr s \<Longrightarrow> \<exists>kvs. v = JObj kvs"
  by (cases v) simp_all

lemma processQuestion_explanation:
  "processQuestion topic examType index q = Inr p \<Longrightarrow>
     read_prop p ''explanation'' = or_else (read_prop q ''explanation'') (JStr [])"
  by (auto simp: processQuestion_def bindE_eq_Inr Let_def)

lemma string_explanation_invalid:
  "read_prop p ''explanation'' = JStr s \<Longrightarrow> validateQuestionFormat p = Inr False"
  by (simp add: validateQuestionFormat_eq well_formed_def filled_string_def)

text \<open>
  C8, as amended. A batch item without \<open>explanation\<close> is mapped with the empty string
  as its explanation, and an item whose \<open>explanation\<close> is a string keeps that string;
  a string has no \<open>correct\<close> and no \<open>key_point\<close>, so the mapped question fails
  \<open>validateQuestionFormat\<close> and is filtered out. Hence every question that
  \<open>getTestQuestions\<close> returns has an object as its explanation, with non-empty strings
  \<open>correct\<close> and \<open>key_point\<close>.
\<close>

theorem string_explanation_rejected:
  "(processQuestion topic examType index q = Inr p \<longrightarrow>
      (read_prop q ''explanation'' = JUndefined \<longrightarrow> read_prop p ''explanation'' = JStr []) \<and>
      (\<forall>s. read_prop q ''explanation'' = JStr s \<longrightarrow> read_prop p ''explanation'' = JStr s) \<and>
      (read_prop q ''explanation'' = JUndefined \<or> (\<exists>s. read_prop q ''explanation'' = JStr s) \<longrightarrow>
         validateQuestionFormat p = Inr False))
   \<and> (getTestQuestions eng net topic examType = (evs, Inr qs) \<longrightarrow>
        (\<forall>r\<in>set qs. \<exists>kvs c k. read_prop r ''explanation'' = JObj kvs \<and>
            read_prop (JObj kvs) ''correct'' = JStr c \<and> c \<noteq> [] \<and>
            read_prop (JObj kvs) ''key_point'' = JStr k \<and> k \<noteq> []))"
proof (intro conjI impI allI ballI)
  assume "processQuestion topic examType index q = Inr p"
  note e = processQuestion_explanation [OF this]
  {
    assume "read_prop q ''explanation'' = JUndefined"
    with e show "read_prop p ''explanation'' = JStr []"
      by (simp add: or_else_def)
  }
  {
    fix s assume "read_prop q ''explanation'' = JStr s"
    with e show "read_prop p ''explanation'' = JStr s"
      by (simp add: or_else_def)
  }
  {
    assume "read_prop q ''explanation'' = JUndefined \<or> (\<exists>s. read_prop q ''explanation'' = JStr s)"
    with e have "\<exists>s. read_prop p ''explanation'' = JStr s"
      by (auto simp: or_else_def)
    then show "validateQuestionFormat p = Inr False"
      by (auto intro: string_explanation_invalid)
  }
next
  fix r
  assume "getTestQuestions eng net topic examType = (evs, Inr qs)" and "r \<in> set qs"
  with getTestQuestions_Inr_valid have "well_formed r" by blast
  then have c: "filled_string (read_prop (read_prop r ''explanation'') ''correct'') 5"
    and k: "filled_string (read_prop (read_prop r ''explanation'') ''key_point'') 5"
    by (simp_all add: well_formed_def)
  from filled_string_JStr [OF c] obtain cs where cs:
    "read_prop (read_prop r ''explanation'') ''correct'' = JStr cs" "cs \<noteq> []" by blast
  from filled_string_JStr [OF k] obtain ks where ks:
    "read_prop (read_prop r ''explanation'') ''key_point'' = JStr ks" "ks \<noteq> []" by blast
  from read_prop_JStr_obj [OF cs(1)] obtain kvs where "read_prop r ''explanation'' = JObj kvs"
    by blast
  with cs ks show "\<exists>kvs c k. read_prop r ''explanation'' = JObj kvs \<and>
            read_prop (JObj kvs) ''correct'' = JStr c \<and> c \<noteq> [] \<and>
            read_prop (JObj kvs) ''key_point'' = JStr k \<and> k \<noteq> []"
    by auto
qed


text \<open>The theorem at an item whose explanation is a string, and at a returned batch.\<close>

theorem string_explanation_rejected_witness:
  "validateQuestionFormat
     (JObj [(''text'', JStr ''What bends light?''),
              (''options'', JArr []),
              (''correctAnswer'', JNum (Fin 0)),
              (''explanation'', JStr ''because''),
              (''difficulty'', JNum (Fin 1)),
              (''topic'', JStr ''Optics''),
              (''subtopic'', JStr ''Optics Concept 1''),
              (''examType'', JStr ''JEE''),
              (''questionType'', JStr ''conceptual''),
              (''ageGroup'', JStr ''16-18'')]) = Inr False
   \<and> (\<exists>kvs c k. read_prop (sample_processed 0) ''explanation'' = JObj kvs \<and>
         read_prop (JObj kvs) ''correct'' = JStr c \<and> c \<noteq> [] \<and>
         read_prop (JObj kvs) ''key_point'' = JStr k \<and> k \<noteq> [])"
proof (rule conjI)
  have e: "processQuestion ''Optics'' JEE 0
     (JObj [(''text'', JStr ''What bends light?''), (''explanation'', JStr ''because'')]) =
   Inr (JObj [(''text'', JStr ''What bends light?''),
              (''options'', JArr []),
              (''correctAnswer'', JNum (Fin 0)),
              (''explanation'', JStr ''because''),
              (''difficulty'', JNum (Fin 1)),
              (''topic'', JStr ''Optics''),
              (''subtopic'', JStr ''Optics Concept 1''),
              (''examType'', JStr ''JEE''),
              (''questionType'', JStr ''conceptual''),
              (''ageGroup'', JStr ''16-18'')])"
    by code_simp
  show "validateQuestionFormat
     (JObj [(''text'', JStr ''What bends light?''),
              (''options'', JArr []),
              (''correctAnswer'', JNum (Fin 0)),
              (''explanation'', JStr ''because''),
              (''difficulty'', JNum (Fin 1)),
              (''topic'', JStr ''Optics''),
              (''subtopic'', JStr ''Optics Concept 1''),
              (''examType'', JStr ''JEE''),
              (''questionType'', JStr ''conceptual''),
              (''ageGroup'', JStr ''16-18'')]) = Inr False"
    by (rule string_explanation_rejected
          [THEN conjunct1, THEN mp, OF e, THEN conjunct2, THEN conjunct2, THEN mp])
      simp
next
  have run: "getTestQuestions sample_engine (sample_network 5) ''Optics'' JEE =
     ([], Inr (map sample_processed [0, 1, 2, 3, 4]))"
    by code_simp
  show "\<exists>kvs c k. read_prop (sample_processed 0) ''explanation'' = JObj kvs \<and>
         read_prop (JObj kvs) ''correct'' = JStr c \<and> c \<noteq> [] \<and>
         read_prop (JObj kvs) ''key_point'' = JStr k \<and> k \<noteq> []"
    by (rule string_explanation_rejected [THEN conjunct2, THEN mp, OF run, THEN bspec]) simp
qed

text \<open>
  C8 as stated fails: an explanation that is a non-empty string is truthy, and
  \<open>q.explanation || ''\<close> keeps it; it is not replaced by the empty string.
\<close>

theorem string_explanation_kept_counterexample:
  "processQuestion ''Optics'' JEE 0
     (JObj [(''text'', JStr ''What bends light?''), (''explanation'', JStr ''because'')]) =
   Inr (JObj [(''text'', JStr ''What bends light?''),
              (''options'', JArr []),
              (''correctAnswer'', JNum (Fin 0)),
              (''explanation'', JStr ''because''),
              (''difficulty'', JNum (Fin 1)),
              (''topic'', JStr ''Optics''),
              (''subtopic'', JStr ''Optics Concept 1''),
              (''examType'', JStr ''JEE''),
              (''questionType'', JStr ''conceptual''),
              (''ageGroup'', JStr ''16-18'')])"
  by code_simp

end
